theory Spec2Isabelle
  imports Complex_Main "HOL-Library.Word" "HOL-Library.Sublist" "HOL-Library.Multiset"
begin

unbundle bit_operations_syntax

section \<open>Strings of the program\<close>

text \<open>
  A JavaScript string is a sequence of UTF-16 code units; \<open>charCodeAt\<close> reads one of them
  as a number between 0 and 65535, and \<open>length\<close> counts them. The fixed messages of the
  program that are plain ASCII are written through \<open>js\<close>; the palette entries, which are
  only returned, are plain strings.
\<close>

type_synonym jsstring = "16 word list"

definition js :: "string \<Rightarrow> jsstring" where
  "js s = map (\<lambda>c. of_char c) s"

section \<open>Color Assigner: \<open>getAreaColor\<close>\<close>

text \<open>
  The palette of \<open>getAreaColor\<close>, in the order of the source (30 entries; the entry
  \<open>#6C5CE7\<close> stands at index 12 and again at index 19).
\<close>

definition colors :: "string list" where
  "colors =
    [''#FF6B6B'', ''#4ECDC4'', ''#45B7D1'', ''#96CEB4'', ''#FECA57'',
     ''#FF9FF3'', ''#54A0FF'', ''#5F27CD'', ''#00D2D3'', ''#FF9F43'',
     ''#C44569'', ''#F8B500'', ''#6C5CE7'', ''#A55EEA'', ''#26DE81'',
     ''#FD79A8'', ''#E17055'', ''#00B894'', ''#0984E3'', ''#6C5CE7'',
     ''#F39C12'', ''#E74C3C'', ''#9B59B6'', ''#3498DB'', ''#1ABC9C'',
     ''#E67E22'', ''#95A5A6'', ''#34495E'', ''#2ECC71'', ''#F1C40F'']"

text \<open>
  The program's numbers are IEEE doubles. Every value of the loop is an integer, and a
  double holds every integer of magnitude below \<open>2^53\<close> exactly; a larger integer is
  rounded to the nearest one with a 53-bit significand, a tie going to the even
  significand. \<open>to_double\<close> is that rounding on integers.
\<close>

fun bit_length :: "nat \<Rightarrow> nat" where
  "bit_length n = (if n = 0 then 0 else Suc (bit_length (n div 2)))"

declare bit_length.simps [simp del]

definition to_double :: "int \<Rightarrow> int" where
  "to_double x =
     (let m = nat \<bar>x\<bar> in
      if m < 2 ^ 53 then x
      else
        (let u = 2 ^ (bit_length m - 53);
             q = m div u;
             r = m mod u;
             q' = (if u < 2 * r \<or> (2 * r = u \<and> odd q) then q + 1 else q)
         in sgn x * int (q' * u)))"

text \<open>
  \<open>hash << 5\<close>: the left operand is converted to a 32-bit integer (its value modulo
  \<open>2^32\<close>), shifted within 32 bits, and the result is read as a signed 32-bit integer.
  The subtraction and the addition around it are double arithmetic: the accumulator
  itself is not truncated to 32 bits.
\<close>

definition shl5 :: "int \<Rightarrow> int" where
  "shl5 hash = sint (push_bit 5 (word_of_int hash :: 32 word))"

definition hash_step :: "int \<Rightarrow> 16 word \<Rightarrow> int" where
  "hash_step hash c = to_double (uint c + to_double (shl5 hash - hash))"

text \<open>
  The loop \<open>for (let i = 0; i < areaName.length; i++) hash = ...\<close>, with the loop
  variable and the accumulator as arguments.
\<close>

function hash_loop :: "jsstring \<Rightarrow> nat \<Rightarrow> int \<Rightarrow> int" where
  "hash_loop areaName i hash =
     (if i < length areaName
      then hash_loop areaName (Suc i) (hash_step hash (areaName ! i))
      else hash)"
  by pat_completeness auto
termination
  by (relation "measure (\<lambda>(areaName, i, hash). length areaName - i)") auto

declare hash_loop.simps [simp del]

definition colorIndex :: "jsstring \<Rightarrow> nat" where
  "colorIndex areaName = nat (\<bar>hash_loop areaName 0 0\<bar> mod int (length colors))"

definition getAreaColor :: "jsstring \<Rightarrow> string" where
  "getAreaColor areaName = colors ! colorIndex areaName"

section \<open>Area Info Fetcher: \<open>fetchAreaInfo\<close>\<close>

text \<open>
  The exceptions the program can throw: a rejected \<open>fetch\<close>, a body that is not JSON
  (\<open>res.json()\<close> rejects with a \<open>SyntaxError\<close>), a property read on \<open>undefined\<close> or
  \<open>null\<close>, and \<open>encodeURIComponent\<close> on a string with a lone surrogate.
\<close>

datatype error = NetworkError | SyntaxError | TypeError | URIError | InvalidLatLng

text \<open>
  \<open>encodeURIComponent\<close> throws a \<open>URIError\<close> on a string that is not well-formed UTF-16
  (a high surrogate not followed by a low one, or a low surrogate on its own). On
  well-formed strings it is injective, so a request is identified by the string that
  was encoded into its URL.
\<close>

definition is_high_surrogate :: "16 word \<Rightarrow> bool" where
  "is_high_surrogate c = (0xD800 \<le> c \<and> c \<le> 0xDBFF)"

definition is_low_surrogate :: "16 word \<Rightarrow> bool" where
  "is_low_surrogate c = (0xDC00 \<le> c \<and> c \<le> 0xDFFF)"

fun well_formed :: "jsstring \<Rightarrow> bool" where
  "well_formed [] = True"
| "well_formed [c] = (\<not> is_high_surrogate c \<and> \<not> is_low_surrogate c)"
| "well_formed (c # d # s) =
     (if is_high_surrogate c then is_low_surrogate d \<and> well_formed s
      else \<not> is_low_surrogate c \<and> well_formed (d # s))"

definition encodeURIComponent :: "jsstring \<Rightarrow> error + jsstring" where
  "encodeURIComponent s = (if well_formed s then Inr s else Inl URIError)"

text \<open>
  The summary endpoint's JSON, as far as it is read: \<open>title\<close>, \<open>extract\<close>,
  \<open>thumbnail?.source\<close> and \<open>content_urls?.desktop?.page\<close>, each absent (\<open>None\<close>) or a
  string.
\<close>

datatype thumbnail_obj = Thumbnail (source: "jsstring option")
datatype desktop_obj = Desktop (page: "jsstring option")
datatype content_urls_obj = ContentUrls (desktop: "desktop_obj option")

record summaryData =
  summary_title :: "jsstring option"
  summary_extract :: "jsstring option"
  summary_thumbnail :: "thumbnail_obj option"
  summary_content_urls :: "content_urls_obj option"

record AreaInfoSummary =
  title :: jsstring
  "extract" :: jsstring
  thumbnail :: "jsstring option"
  pageUrl :: "jsstring option"

text \<open>
  The remote service: what awaiting a search for a query and reading
  \<open>searchData.query.search\<close> gives (the titles of the results, or the exception thrown on
  the way), and what awaiting the summary of a title gives. The requests issued are
  recorded in order.
\<close>

datatype request = SearchRequest jsstring | SummaryRequest jsstring

record wikipedia =
  fetch_search :: "jsstring \<Rightarrow> error + jsstring list"
  fetch_summary :: "jsstring \<Rightarrow> error + summaryData"

text \<open>
  \<open>v || d\<close> on an optional string: \<open>d\<close> when \<open>v\<close> is absent or the empty string (both are
  falsy), \<open>v\<close> otherwise.
\<close>

definition or_else :: "jsstring option \<Rightarrow> jsstring \<Rightarrow> jsstring" where
  "or_else v d = (case v of None \<Rightarrow> d | Some s \<Rightarrow> if s = [] then d else s)"

definition or_null :: "jsstring option \<Rightarrow> jsstring option" where
  "or_null v = (case v of None \<Rightarrow> None | Some s \<Rightarrow> if s = [] then None else Some s)"

text \<open>
  The template string made of the area name, a space and the island's name; the c with
  cedilla is the code unit \<open>0xE7\<close>.
\<close>

definition curacao_query :: "jsstring \<Rightarrow> jsstring" where
  "curacao_query areaName = areaName @ js '' Cura'' @ [0xE7] @ js ''ao''"

definition search_step :: "wikipedia \<Rightarrow> jsstring \<Rightarrow> request list \<times> (error + jsstring list)" where
  "search_step w searchQuery =
     (case encodeURIComponent searchQuery of
        Inl e \<Rightarrow> ([], Inl e)
      | Inr q \<Rightarrow> ([SearchRequest q], fetch_search w q))"

definition summary_step :: "wikipedia \<Rightarrow> jsstring \<Rightarrow> request list \<times> (error + summaryData)" where
  "summary_step w firstTitle =
     (case encodeURIComponent firstTitle of
        Inl e \<Rightarrow> ([], Inl e)
      | Inr t \<Rightarrow> ([SummaryRequest t], fetch_summary w t))"

definition no_wikipedia_info :: "jsstring \<Rightarrow> AreaInfoSummary" where
  "no_wikipedia_info areaName =
     \<lparr>title = areaName,
      extract = js ''No Wikipedia information available for this area.'',
      thumbnail = None, pageUrl = None\<rparr>"

definition information_not_available :: "jsstring \<Rightarrow> AreaInfoSummary" where
  "information_not_available areaName =
     \<lparr>title = areaName, extract = js ''Information not available.'',
      thumbnail = None, pageUrl = None\<rparr>"

text \<open>
  The body of the \<open>try\<close> block: the requests issued, and the value returned or the
  exception thrown.
\<close>

definition fetchAreaInfo_try ::
  "wikipedia \<Rightarrow> jsstring \<Rightarrow> request list \<times> (error + AreaInfoSummary)" where
  "fetchAreaInfo_try w areaName =
     (case search_step w (curacao_query areaName) of
        (reqs1, Inl e) \<Rightarrow> (reqs1, Inl e)
      | (reqs1, Inr search1) \<Rightarrow>
          (case (if search1 = [] then search_step w areaName else ([], Inr search1)) of
             (reqs2, Inl e) \<Rightarrow> (reqs1 @ reqs2, Inl e)
           | (reqs2, Inr search2) \<Rightarrow>
               (case search2 of
                  [] \<Rightarrow> (reqs1 @ reqs2,
                         Inr (no_wikipedia_info areaName))
                | firstTitle # _ \<Rightarrow>
                    (case summary_step w firstTitle of
                       (reqs3, Inl e) \<Rightarrow> (reqs1 @ reqs2 @ reqs3, Inl e)
                     | (reqs3, Inr summaryData) \<Rightarrow>
                         (reqs1 @ reqs2 @ reqs3,
                          Inr \<lparr>title = or_else (summary_title summaryData) areaName,
                               extract = or_else (summary_extract summaryData)
                                           (js ''No description available.''),
                               thumbnail = or_null
                                 (case summary_thumbnail summaryData of
                                    None \<Rightarrow> None | Some t \<Rightarrow> source t),
                               pageUrl = or_null
                                 (case summary_content_urls summaryData of
                                    None \<Rightarrow> None
                                  | Some c \<Rightarrow>
                                      (case desktop c of
                                         None \<Rightarrow> None | Some d \<Rightarrow> page d))\<rparr>)))))"

text \<open>
  \<open>fetchAreaInfo\<close>: the \<open>catch\<close> block turns every exception of the body into the
  default record. The result type keeps the possibility of an exception, so that "never
  raises" is a statement about the function and not about its type.
\<close>

definition fetchAreaInfo ::
  "wikipedia \<Rightarrow> jsstring \<Rightarrow> request list \<times> (error + AreaInfoSummary)" where
  "fetchAreaInfo w areaName =
     (case fetchAreaInfo_try w areaName of
        (reqs, Inl e) \<Rightarrow>
          (reqs, Inr (information_not_available areaName))
      | (reqs, Inr info) \<Rightarrow> (reqs, Inr info))"


text \<open>
  Services to run the function on: unreachable; without hits; one whose fallback search
  fails; two whose summary fetch fails, after the first search and after the fallback;
  one whose summary has an empty extract; and one that answers the fallback search with
  a full summary.
\<close>

definition wikipedia_offline :: wikipedia where
  "wikipedia_offline =
     \<lparr>fetch_search = (\<lambda>q. Inl NetworkError), fetch_summary = (\<lambda>t. Inl NetworkError)\<rparr>"

definition wikipedia_no_hits :: wikipedia where
  "wikipedia_no_hits =
     \<lparr>fetch_search = (\<lambda>q. Inr []), fetch_summary = (\<lambda>t. Inl NetworkError)\<rparr>"

definition blank_extract_summary :: summaryData where
  "blank_extract_summary =
     \<lparr>summary_title = Some (js ''Punda''), summary_extract = Some [],
      summary_thumbnail = None, summary_content_urls = None\<rparr>"

definition wikipedia_blank_extract :: wikipedia where
  "wikipedia_blank_extract =
     \<lparr>fetch_search = (\<lambda>q. Inr [js ''Punda'']),
      fetch_summary = (\<lambda>t. Inr blank_extract_summary)\<rparr>"

text \<open>
  The record as the specification words it, with \<open>??\<close> (fall back only on an absent
  field), to compare with what the code returns.
\<close>

definition wikipedia_fallback_fails :: wikipedia where
  "wikipedia_fallback_fails =
     \<lparr>fetch_search = (\<lambda>q. if q = js ''Punda'' then Inl NetworkError else Inr []),
      fetch_summary = (\<lambda>t. Inl NetworkError)\<rparr>"

definition wikipedia_no_summary :: wikipedia where
  "wikipedia_no_summary =
     \<lparr>fetch_search = (\<lambda>q. Inr [js ''Punda'']),
      fetch_summary = (\<lambda>t. Inl SyntaxError)\<rparr>"

definition wikipedia_fallback_no_summary :: wikipedia where
  "wikipedia_fallback_no_summary =
     \<lparr>fetch_search = (\<lambda>q. if q = js ''Punda'' then Inr [js ''Punda''] else Inr []),
      fetch_summary = (\<lambda>t. Inl SyntaxError)\<rparr>"

definition full_summary :: summaryData where
  "full_summary =
     \<lparr>summary_title = Some (js ''Punda''),
      summary_extract = Some (js ''Punda is a district of Willemstad.''),
      summary_thumbnail = Some (Thumbnail (Some (js ''punda.jpg''))),
      summary_content_urls = Some (ContentUrls (Some (Desktop (Some (js ''wiki/Punda'')))))\<rparr>"

definition wikipedia_fallback_hit :: wikipedia where
  "wikipedia_fallback_hit =
     \<lparr>fetch_search = (\<lambda>q. if q = js ''Punda'' then Inr [js ''Punda''] else Inr []),
      fetch_summary = (\<lambda>t. Inr full_summary)\<rparr>"

definition nullish_else :: "'a option \<Rightarrow> 'a \<Rightarrow> 'a" where
  "nullish_else v d = (case v of None \<Rightarrow> d | Some s \<Rightarrow> s)"

definition claimed_summary :: "jsstring \<Rightarrow> summaryData \<Rightarrow> AreaInfoSummary" where
  "claimed_summary areaName summaryData =
     \<lparr>title = nullish_else (summary_title summaryData) areaName,
      extract = nullish_else (summary_extract summaryData) (js ''No description available.''),
      thumbnail = (case summary_thumbnail summaryData of None \<Rightarrow> None | Some t \<Rightarrow> source t),
      pageUrl = (case summary_content_urls summaryData of
                   None \<Rightarrow> None
                 | Some c \<Rightarrow> (case desktop c of None \<Rightarrow> None | Some d \<Rightarrow> page d))\<rparr>"

section \<open>Search Filter\<close>

record AreaInfo =
  name :: jsstring
  population :: int
  households :: int
  meanIncome :: real

text \<open>
  \<open>trim\<close> removes the white space and line terminator characters of ECMAScript from both
  ends: TAB, LF, VT, FF, CR, SPACE, NBSP, U+1680, U+2000 to U+200A, U+2028, U+2029,
  U+202F, U+205F, U+3000 and U+FEFF. Each is a single code unit.
\<close>

definition is_white_space :: "16 word \<Rightarrow> bool" where
  "is_white_space c =
     ((0x09 \<le> c \<and> c \<le> 0x0D) \<or> c = 0x20 \<or> c = 0xA0 \<or> c = 0x1680
      \<or> (0x2000 \<le> c \<and> c \<le> 0x200A) \<or> c = 0x2028 \<or> c = 0x2029 \<or> c = 0x202F
      \<or> c = 0x205F \<or> c = 0x3000 \<or> c = 0xFEFF)"

definition trim :: "jsstring \<Rightarrow> jsstring" where
  "trim s = rev (dropWhile is_white_space (rev (dropWhile is_white_space s)))"

text \<open>\<open>s.includes(q)\<close>: \<open>q\<close> occurs in \<open>s\<close> at some position.\<close>

primrec string_includes :: "jsstring \<Rightarrow> jsstring \<Rightarrow> bool" where
  "string_includes [] q = (q = [])"
| "string_includes (c # s) q = (prefix q (c # s) \<or> string_includes s q)"

text \<open>
  The effect that recomputes \<open>filteredAreas\<close> from \<open>searchTerm\<close> and \<open>areas\<close>. The built-in
  \<open>toLowerCase\<close> is a parameter: what is proved for every function holds for the
  engine's.
\<close>

definition handle_search ::
  "(jsstring \<Rightarrow> jsstring) \<Rightarrow> jsstring \<Rightarrow> AreaInfo list \<Rightarrow> AreaInfo list" where
  "handle_search toLowerCase searchTerm areas =
     (if trim searchTerm = [] then areas
      else filter (\<lambda>area. string_includes (toLowerCase (name area)) (toLowerCase searchTerm)) areas)"

text \<open>
  ECMAScript's \<open>toLowerCase\<close> on strings made of Basic Latin and Greek letters. It follows
  the Unicode default case conversion, whose one context-sensitive rule is the final
  sigma: a capital sigma (U+03A3) that follows a cased letter and is not followed by one
  becomes the final form U+03C2, any other capital sigma becomes U+03C3.
\<close>

definition is_cased :: "16 word \<Rightarrow> bool" where
  "is_cased c =
     ((0x41 \<le> c \<and> c \<le> 0x5A) \<or> (0x61 \<le> c \<and> c \<le> 0x7A)
      \<or> (0x391 \<le> c \<and> c \<le> 0x3A9 \<and> c \<noteq> 0x3A2) \<or> (0x3B1 \<le> c \<and> c \<le> 0x3C9))"

definition lower_unit :: "16 word \<Rightarrow> 16 word" where
  "lower_unit c =
     (if (0x41 \<le> c \<and> c \<le> 0x5A) \<or> (0x391 \<le> c \<and> c \<le> 0x3A9 \<and> c \<noteq> 0x3A2)
      then c + 0x20 else c)"

fun lower_from :: "bool \<Rightarrow> jsstring \<Rightarrow> jsstring" where
  "lower_from after_cased [] = []"
| "lower_from after_cased (c # s) =
     (if c = 0x3A3 \<and> after_cased \<and> \<not> (case s of [] \<Rightarrow> False | d # _ \<Rightarrow> is_cased d)
      then 0x3C2 else lower_unit c)
     # lower_from (is_cased c) s"

definition letters_toLowerCase :: "jsstring \<Rightarrow> jsstring" where
  "letters_toLowerCase s = lower_from False s"

text \<open>Areas and queries to run the filter on.\<close>

definition two_areas :: "AreaInfo list" where
  "two_areas =
     [\<lparr>name = js ''Bandabou'', population = 8000, households = 0, meanIncome = 0\<rparr>,
      \<lparr>name = js ''Willemstad'', population = 150000, households = 0, meanIncome = 0\<rparr>]"

definition sigma_area :: AreaInfo where
  "sigma_area =
     \<lparr>name = [0x391, 0x3A3, 0x391], population = 0, households = 0, meanIncome = 0\<rparr>"

section \<open>Geo Data Loader: \<open>loadGeoJSON\<close>\<close>

text \<open>
  A feature of the dataset, as far as the program reads it: the geometry with its type
  and coordinates (a position is the pair of its first two numbers, longitude and
  latitude), and the properties object, which GeoJSON allows to be \<open>null\<close>. A property is
  absent (\<open>None\<close>) or has a value.
\<close>

type_synonym position = "real \<times> real"

datatype geometry =
    Point position
  | Polygon "position list list"
  | MultiPolygon "position list list list"
  | OtherGeometry

record properties =
  NAME :: "jsstring option"
  pop :: "int option"
  HH :: "int option"
  meanPinc :: "real option"
  prop_name :: "jsstring option"
  prop_area :: "jsstring option"
  prop_photo :: "jsstring option"
  prop_description :: "jsstring option"

record feature =
  geometry :: geometry
  properties :: "properties option"

record ChurchFeature =
  church_name :: jsstring
  church_area :: jsstring
  church_photo :: jsstring
  church_description :: jsstring
  church_coordinates :: position

definition is_polygon :: "feature \<Rightarrow> bool" where
  "is_polygon f =
     (case geometry f of Polygon _ \<Rightarrow> True | MultiPolygon _ \<Rightarrow> True | _ \<Rightarrow> False)"

definition is_point :: "feature \<Rightarrow> bool" where
  "is_point f = (case geometry f of Point _ \<Rightarrow> True | _ \<Rightarrow> False)"

text \<open>\<open>n || 0\<close> on an optional number.\<close>

definition or_zero :: "'a::zero option \<Rightarrow> 'a" where
  "or_zero v = (case v of None \<Rightarrow> 0 | Some n \<Rightarrow> n)"

text \<open>
  The callback of \<open>map\<close> that builds an area record. Reading \<open>feature.properties.NAME\<close>
  throws when the properties are \<open>null\<close>.
\<close>

definition area_of_feature :: "feature \<Rightarrow> error + AreaInfo" where
  "area_of_feature f =
     (case properties f of
        None \<Rightarrow> Inl TypeError
      | Some p \<Rightarrow>
          Inr \<lparr>name = or_else (NAME p) (js ''Unknown''),
               population = or_zero (pop p),
               households = or_zero (HH p),
               meanIncome = or_zero (meanPinc p)\<rparr>)"

text \<open>
  The callback that builds a church record. It copies \<open>feature.geometry.coordinates\<close>; it
  is only applied to Point features, the other case of the geometry is never reached.
\<close>

definition church_of_feature :: "feature \<Rightarrow> error + ChurchFeature" where
  "church_of_feature f =
     (case properties f of
        None \<Rightarrow> Inl TypeError
      | Some p \<Rightarrow>
          Inr \<lparr>church_name = or_else (prop_name p) (js ''Unknown Church''),
               church_area = or_else (prop_area p) (js ''Unknown Area''),
               church_photo = or_else (prop_photo p) [],
               church_description = or_else (prop_description p) [],
               church_coordinates =
                 (case geometry f of Point c \<Rightarrow> c | _ \<Rightarrow> (0, 0))\<rparr>)"

text \<open>\<open>xs.map(f)\<close> with a callback that can throw: the first exception ends the call.\<close>

fun array_map :: "('a \<Rightarrow> error + 'b) \<Rightarrow> 'a list \<Rightarrow> error + 'b list" where
  "array_map f [] = Inr []"
| "array_map f (x # xs) =
     (case f x of
        Inl e \<Rightarrow> Inl e
      | Inr y \<Rightarrow> (case array_map f xs of Inl e \<Rightarrow> Inl e | Inr ys \<Rightarrow> Inr (y # ys)))"

text \<open>
  \<open>sort((a, b) => a.name.localeCompare(b.name))\<close>: a stable sort by the comparator. The
  built-in \<open>localeCompare\<close> is a parameter; it returns a negative number, zero or a
  positive number.
\<close>

fun insert_by :: "(jsstring \<Rightarrow> jsstring \<Rightarrow> int) \<Rightarrow> AreaInfo \<Rightarrow> AreaInfo list \<Rightarrow> AreaInfo list" where
  "insert_by localeCompare a [] = [a]"
| "insert_by localeCompare a (b # bs) =
     (if localeCompare (name a) (name b) \<le> 0 then a # b # bs
      else b # insert_by localeCompare a bs)"

definition array_sort :: "(jsstring \<Rightarrow> jsstring \<Rightarrow> int) \<Rightarrow> AreaInfo list \<Rightarrow> AreaInfo list" where
  "array_sort localeCompare areaList = foldr (insert_by localeCompare) areaList []"

text \<open>
  The full variant: the area list from the Polygon and MultiPolygon features, the church
  list from the Point features. The result is what \<open>setAreas\<close> (and \<open>setFilteredAreas\<close>) and
  \<open>setChurchesData\<close> receive; on an exception the \<open>catch\<close> block logs it and no state is set.
\<close>

definition loadGeoJSON ::
  "(jsstring \<Rightarrow> jsstring \<Rightarrow> int) \<Rightarrow> feature list \<Rightarrow> error + (AreaInfo list \<times> ChurchFeature list)"
  where
  "loadGeoJSON localeCompare features =
     (case array_map area_of_feature (filter is_polygon features) of
        Inl e \<Rightarrow> Inl e
      | Inr areaList \<Rightarrow>
          (case array_map church_of_feature (filter is_point features) of
             Inl e \<Rightarrow> Inl e
           | Inr churchList \<Rightarrow> Inr (array_sort localeCompare areaList, churchList)))"

text \<open>The basic variant: the area list from every feature of the dataset.\<close>

definition loadGeoJSON_basic ::
  "(jsstring \<Rightarrow> jsstring \<Rightarrow> int) \<Rightarrow> feature list \<Rightarrow> error + AreaInfo list" where
  "loadGeoJSON_basic localeCompare features =
     (case array_map area_of_feature features of
        Inl e \<Rightarrow> Inl e
      | Inr areaList \<Rightarrow> Inr (array_sort localeCompare areaList))"

text \<open>
  The order the comparator puts the area records in: \<open>a\<close> may stand before \<open>b\<close> when
  \<open>a.name.localeCompare(b.name)\<close> is not positive.
\<close>

definition name_order :: "(jsstring \<Rightarrow> jsstring \<Rightarrow> int) \<Rightarrow> AreaInfo \<Rightarrow> AreaInfo \<Rightarrow> bool" where
  "name_order localeCompare a b = (localeCompare (name a) (name b) \<le> 0)"

text \<open>The name an area record gets from a feature: \<open>NAME || 'Unknown'\<close>.\<close>

definition feature_area_name :: "feature \<Rightarrow> jsstring" where
  "feature_area_name f =
     (case properties f of None \<Rightarrow> js ''Unknown'' | Some p \<Rightarrow> or_else (NAME p) (js ''Unknown''))"

text \<open>A comparator and a dataset to run the loader on.\<close>

fun code_unit_compare :: "jsstring \<Rightarrow> jsstring \<Rightarrow> int" where
  "code_unit_compare [] [] = 0"
| "code_unit_compare [] (d # t) = - 1"
| "code_unit_compare (c # s) [] = 1"
| "code_unit_compare (c # s) (d # t) =
     (if c < d then - 1 else if d < c then 1 else code_unit_compare s t)"

definition no_properties :: properties where
  "no_properties =
     \<lparr>NAME = None, pop = None, HH = None, meanPinc = None, prop_name = None,
      prop_area = None, prop_photo = None, prop_description = None\<rparr>"

definition willemstad_feature :: feature where
  "willemstad_feature =
     \<lparr>geometry = Polygon [[(0, 0), (4, 0), (4, 2), (0, 2), (0, 0)]],
      properties = Some (no_properties\<lparr>NAME := Some (js ''Willemstad''), pop := Some 150000\<rparr>)\<rparr>"

definition bandabou_feature :: feature where
  "bandabou_feature =
     \<lparr>geometry = Polygon [[(4, 0), (6, 0), (6, 2), (4, 0)]],
      properties = Some (no_properties\<lparr>NAME := Some (js ''Bandabou''), pop := Some 8000\<rparr>)\<rparr>"

definition church_feature :: feature where
  "church_feature =
     \<lparr>geometry = Point (1, 1),
      properties = Some (no_properties\<lparr>prop_name := Some (js ''Fortkerk''),
                                         prop_area := Some (js ''Willemstad'')\<rparr>)\<rparr>"

section \<open>Map Render Layer: styles and labels\<close>

text \<open>
  The style function of the polygon layer. It returns the empty object (\<open>None\<close>) for a
  feature without properties, and otherwise the six attributes, which depend on whether
  the feature's name \<open>NAME || 'Unknown'\<close> is the selected one.
\<close>

record path_options =
  fillColor :: string
  weight :: nat
  opacity :: real
  color :: string
  dashArray :: string
  fillOpacity :: real

definition style :: "jsstring option \<Rightarrow> feature option \<Rightarrow> path_options option" where
  "style selectedArea feature =
     (case feature of
        None \<Rightarrow> None
      | Some f \<Rightarrow>
          (case properties f of
             None \<Rightarrow> None
           | Some p \<Rightarrow>
               (let areaName = or_else (NAME p) (js ''Unknown'');
                    isSelected = (selectedArea = Some areaName)
                in Some \<lparr>fillColor = getAreaColor areaName,
                         weight = (if isSelected then 3 else 1),
                         opacity = 1,
                         color = (if isSelected then ''#1d4ed8'' else ''#ffffff''),
                         dashArray = [],
                         fillOpacity = (if isSelected then 0.9 else 0.7)\<rparr>)))"

text \<open>
  The result of a division of numbers: a number, or \<open>NaN\<close> for \<open>0 / 0\<close>, or an infinity
  for another division by zero. The coordinates are taken as real numbers: rounding and
  the sign of zero are left out.
\<close>

datatype jsnum = Num real | NaN | PosInfinity | NegInfinity

definition js_divide :: "real \<Rightarrow> int \<Rightarrow> jsnum" where
  "js_divide a d =
     (if d = 0 then (if a = 0 then NaN else if 0 < a then PosInfinity else NegInfinity)
      else Num (a / of_int d))"

definition is_finite :: "jsnum \<Rightarrow> bool" where
  "is_finite v = (case v of Num _ \<Rightarrow> True | _ \<Rightarrow> False)"

text \<open>
  The loop \<open>for (let i = 0; i < coordinates.length - 1; i++) { x += ...; y += ... }\<close> over
  the first ring. The bound \<open>coordinates.length - 1\<close> is \<open>-1\<close> on an empty ring.
\<close>

function centroid_loop :: "position list \<Rightarrow> nat \<Rightarrow> real \<Rightarrow> real \<Rightarrow> real \<times> real" where
  "centroid_loop coordinates i x y =
     (if int i < int (length coordinates) - 1
      then centroid_loop coordinates (Suc i)
             (x + fst (coordinates ! i)) (y + snd (coordinates ! i))
      else (x, y))"
  by pat_completeness auto
termination
  by (relation "measure (\<lambda>(coordinates, i, x, y). length coordinates - i)") auto

declare centroid_loop.simps [simp del]

text \<open>
  The position computed for the label of a Polygon: latitude \<open>y / (length - 1)\<close>, longitude
  \<open>x / (length - 1)\<close>. Reading the length of \<open>coordinates[0]\<close> throws when the polygon has no
  ring at all.
\<close>

definition polygon_label_position :: "position list list \<Rightarrow> error + (jsnum \<times> jsnum)" where
  "polygon_label_position rings =
     (case rings of
        [] \<Rightarrow> Inl TypeError
      | coordinates # _ \<Rightarrow>
          (case centroid_loop coordinates 0 0 0 of
             (x, y) \<Rightarrow>
               Inr (js_divide y (int (length coordinates) - 1),
                    js_divide x (int (length coordinates) - 1))))"

text \<open>The map library's \<open>latLng\<close> constructor throws on a \<open>NaN\<close> coordinate.\<close>

definition latLng :: "jsnum \<times> jsnum \<Rightarrow> error + (jsnum \<times> jsnum)" where
  "latLng c = (if fst c = NaN \<or> snd c = NaN then Inl InvalidLatLng else Inr c)"

text \<open>
  A label marker: where it stands, the name it shows, whether it is on the map, and
  whether the selection has restyled its element (blue, bold, 13px).
\<close>

record label_marker =
  label_latlng :: "jsnum \<times> jsnum"
  label_text :: jsstring
  on_map :: bool
  emphasized :: bool

text \<open>
  A layer of the polygon collection: its feature, its current path style, its label (the
  \<open>_label\<close> property, absent when the feature has no name) and its bound popup.
\<close>

record layer =
  layer_feature :: "feature option"
  options :: path_options
  label :: "label_marker option"
  popup :: "jsstring option"

text \<open>
  The label part of \<open>onEachFeature\<close>: for a feature with properties and a truthy \<open>NAME\<close>, a
  label is created (not yet on the map) at the computed position of a Polygon, or at the
  center of the layer's bounds for any other geometry, and stored on the layer.
\<close>

definition onEachFeature :: "feature \<Rightarrow> jsnum \<times> jsnum \<Rightarrow> layer \<Rightarrow> error + layer" where
  "onEachFeature f boundsCenter l =
     (case properties f of
        None \<Rightarrow> Inr l
      | Some p \<Rightarrow>
          (case NAME p of
             None \<Rightarrow> Inr l
           | Some nm \<Rightarrow>
               if nm = [] then Inr l
               else
                 (case (case geometry f of
                          Polygon rings \<Rightarrow>
                            (case polygon_label_position rings of
                               Inl e \<Rightarrow> Inl e
                             | Inr c \<Rightarrow> latLng c)
                        | _ \<Rightarrow> Inr boundsCenter) of
                    Inl e \<Rightarrow> Inl e
                  | Inr center \<Rightarrow>
                      Inr (l\<lparr>label := Some \<lparr>label_latlng = center, label_text = nm,
                                            on_map = False, emphasized = False\<rparr>\<rparr>))))"

section \<open>Application state\<close>

text \<open>
  A church marker shows one church at \<open>[coordinates[1], coordinates[0]]\<close>. The map holds
  its view, the layer whose popup is open, and the church markers added to it. A layer
  of the polygon collection is referred to by its position in the collection.
\<close>

record marker =
  marker_latlng :: position
  marker_church :: ChurchFeature

datatype view = InitialView | FitBounds nat

record leaflet_map =
  view :: view
  open_popup :: "nat option"
  markers :: "marker list"

record app =
  selectedArea :: "jsstring option"
  mapInstanceRef :: "leaflet_map option"
  geoJsonLayerRef :: "layer list option"
  churchMarkersRef :: "marker list"

section \<open>Selection Controller: \<open>selectArea\<close>\<close>

text \<open>
  The body of the \<open>eachLayer\<close> callback of \<open>selectArea\<close>. The test reads
  \<open>layerFeature.properties.NAME\<close>, which throws when the feature's properties are \<open>null\<close>.
  The label is shown or hidden only when it exists and the map exists.
\<close>

definition restyle_layer :: "bool \<Rightarrow> jsstring \<Rightarrow> layer \<Rightarrow> error + layer" where
  "restyle_layer has_map areaName mapLayer =
     (case (case layer_feature mapLayer of
              None \<Rightarrow> Inr False
            | Some layerFeature \<Rightarrow>
                (case properties layerFeature of
                   None \<Rightarrow> Inl TypeError
                 | Some p \<Rightarrow> Inr (NAME p = Some areaName))) of
        Inl e \<Rightarrow> Inl e
      | Inr is_selected \<Rightarrow>
          if is_selected then
            Inr (mapLayer
                  \<lparr>options := (options mapLayer)
                                \<lparr>weight := 3, color := ''#1d4ed8'', fillOpacity := 0.9\<rparr>,
                   label := (case label mapLayer of
                               None \<Rightarrow> None
                             | Some lb \<Rightarrow>
                                 if has_map
                                 then Some (lb\<lparr>on_map := True, emphasized := True\<rparr>)
                                 else Some lb)\<rparr>)
          else
            Inr (mapLayer
                  \<lparr>options := (options mapLayer)
                                \<lparr>weight := 1, color := ''#ffffff'', fillOpacity := 0.7\<rparr>,
                   label := (case label mapLayer of
                               None \<Rightarrow> None
                             | Some lb \<Rightarrow>
                                 if has_map then Some (lb\<lparr>on_map := False\<rparr>)
                                 else Some lb)\<rparr>))"

text \<open>
  \<open>eachLayer\<close> with that callback: an exception ends the pass, with the layers before it
  restyled and the others untouched.
\<close>

fun eachLayer_restyle :: "bool \<Rightarrow> jsstring \<Rightarrow> layer list \<Rightarrow> layer list \<times> error option" where
  "eachLayer_restyle has_map areaName [] = ([], None)"
| "eachLayer_restyle has_map areaName (mapLayer # rest) =
     (case restyle_layer has_map areaName mapLayer of
        Inl e \<Rightarrow> (mapLayer # rest, Some e)
      | Inr restyled \<Rightarrow>
          (case eachLayer_restyle has_map areaName rest of
             (rest', r) \<Rightarrow> (restyled # rest', r)))"

text \<open>
  The restyling pass of \<open>selectArea\<close> (the last statement), run when the collection
  exists: the new state, and the exception if the pass threw.
\<close>

definition restyle_pass :: "jsstring \<Rightarrow> app \<Rightarrow> app \<times> error option" where
  "restyle_pass areaName s =
     (case geoJsonLayerRef s of
        None \<Rightarrow> (s, None)
      | Some ls \<Rightarrow>
          (case eachLayer_restyle (mapInstanceRef s \<noteq> None) areaName ls of
             (ls', r) \<Rightarrow> (s\<lparr>geoJsonLayerRef := Some ls'\<rparr>, r)))"

text \<open>
  \<open>selectArea\<close> is asynchronous. When a layer is passed, the map exists and the layer's
  feature has properties, the call awaits \<open>createPopupContent\<close> after it has set the
  selected name and fitted the view, and other handlers run before it resumes. The part
  up to that point gives the new state and, when the call awaits, the layer and the
  properties it awaits the popup content for. A layer is referred to by its position in
  the collection; callers pass layers of the collection only, and a position outside of
  it is treated as no layer.
\<close>

definition select_start :: "jsstring \<Rightarrow> nat option \<Rightarrow> app \<Rightarrow> app \<times> (nat \<times> properties) option" where
  "select_start areaName layer s =
     (let s0 = s\<lparr>selectedArea := Some areaName\<rparr> in
      case (layer, mapInstanceRef s0, geoJsonLayerRef s0) of
        (Some i, Some m, Some ls) \<Rightarrow>
          if i < length ls then
            (s0\<lparr>mapInstanceRef := Some (m\<lparr>view := FitBounds i\<rparr>)\<rparr>,
             case layer_feature (ls ! i) of
               None \<Rightarrow> None
             | Some feature \<Rightarrow>
                 (case properties feature of None \<Rightarrow> None | Some props \<Rightarrow> Some (i, props)))
          else (s0, None)
      | _ \<Rightarrow> (s0, None))"

text \<open>
  What the call does when the awaited content arrives: the popup is bound to the layer
  and opened, on the state as it is by then.
\<close>

definition bind_and_open_popup ::
  "(properties \<Rightarrow> jsstring) \<Rightarrow> (nat \<times> properties) option \<Rightarrow> app \<Rightarrow> app" where
  "bind_and_open_popup createPopupContent awaited s =
     (case awaited of
        None \<Rightarrow> s
      | Some (i, props) \<Rightarrow>
          s\<lparr>mapInstanceRef := map_option (\<lambda>m. m\<lparr>open_popup := Some i\<rparr>) (mapInstanceRef s),
            geoJsonLayerRef :=
              map_option (\<lambda>ls. ls[i := (ls ! i)\<lparr>popup := Some (createPopupContent props)\<rparr>])
                (geoJsonLayerRef s)\<rparr>)"

text \<open>
  The part of the call after the await (or, when it does not await, right after the
  first part): the popup, then the restyling pass for the name of this call.
\<close>

definition select_finish ::
  "(properties \<Rightarrow> jsstring) \<Rightarrow> jsstring \<Rightarrow> (nat \<times> properties) option \<Rightarrow> app
   \<Rightarrow> app \<times> error option" where
  "select_finish createPopupContent areaName awaited s =
     restyle_pass areaName (bind_and_open_popup createPopupContent awaited s)"

text \<open>
  \<open>selectArea(areaName, layer?)\<close> when nothing else runs during its await: the new state,
  and the exception if the call threw.
\<close>

definition selectArea ::
  "(properties \<Rightarrow> jsstring) \<Rightarrow> jsstring \<Rightarrow> nat option \<Rightarrow> app \<Rightarrow> app \<times> error option" where
  "selectArea createPopupContent areaName layer s =
     (case select_start areaName layer s of
        (s1, awaited) \<Rightarrow> select_finish createPopupContent areaName awaited s1)"




text \<open>The highlight of an entry of the area list: \<open>selectedArea === area.name\<close>.\<close>

definition list_item_selected :: "app \<Rightarrow> AreaInfo \<Rightarrow> bool" where
  "list_item_selected s area = (selectedArea s = Some (name area))"

text \<open>The name a layer is matched by: the \<open>NAME\<close> property of its feature, if any.\<close>

definition layer_NAME :: "layer \<Rightarrow> jsstring option" where
  "layer_NAME l =
     (case layer_feature l of
        None \<Rightarrow> None
      | Some f \<Rightarrow> (case properties f of None \<Rightarrow> None | Some p \<Rightarrow> NAME p))"

definition has_properties :: "layer \<Rightarrow> bool" where
  "has_properties l =
     (case layer_feature l of None \<Rightarrow> True | Some f \<Rightarrow> properties f \<noteq> None)"

definition label_shown :: "layer \<Rightarrow> bool" where
  "label_shown l = (case label l of None \<Rightarrow> False | Some lb \<Rightarrow> on_map lb)"

section \<open>Point-of-Interest Overlay\<close>

definition clearChurchMarkers :: "app \<Rightarrow> app" where
  "clearChurchMarkers s =
     (case mapInstanceRef s of
        None \<Rightarrow> s
      | Some m \<Rightarrow>
          s\<lparr>mapInstanceRef := Some (m\<lparr>markers := fold remove1 (churchMarkersRef s) (markers m)\<rparr>),
            churchMarkersRef := []\<rparr>)"

text \<open>
  The body of the \<open>forEach\<close> of \<open>showChurchesForArea\<close>: a marker for the church is added to
  the map and pushed on the tracked list. It runs after the guard, with the map there.
\<close>

definition church_marker :: "ChurchFeature \<Rightarrow> marker" where
  "church_marker church =
     \<lparr>marker_latlng = (snd (church_coordinates church), fst (church_coordinates church)),
      marker_church = church\<rparr>"

definition add_church_marker :: "ChurchFeature \<Rightarrow> app \<Rightarrow> app" where
  "add_church_marker church s =
     (let marker = church_marker church
      in case mapInstanceRef s of
           None \<Rightarrow> s
         | Some m \<Rightarrow>
             s\<lparr>mapInstanceRef := Some (m\<lparr>markers := markers m @ [marker]\<rparr>),
               churchMarkersRef := churchMarkersRef s @ [marker]\<rparr>)"

text \<open>
  \<open>showChurchesForArea\<close>, with the built-in \<open>toUpperCase\<close> and the loaded \<open>churchesData\<close> as
  parameters.
\<close>

definition showChurchesForArea ::
  "(jsstring \<Rightarrow> jsstring) \<Rightarrow> ChurchFeature list \<Rightarrow> jsstring \<Rightarrow> app \<Rightarrow> app" where
  "showChurchesForArea toUpperCase churchesData areaName s =
     (case mapInstanceRef s of
        None \<Rightarrow> s
      | Some _ \<Rightarrow>
          fold add_church_marker
            (filter (\<lambda>church. toUpperCase (church_area church) = toUpperCase areaName)
               churchesData)
            (clearChurchMarkers s))"

text \<open>The church markers displayed: those on the map, none without a map.\<close>

definition displayed_markers :: "app \<Rightarrow> marker list" where
  "displayed_markers s = (case mapInstanceRef s of None \<Rightarrow> [] | Some m \<Rightarrow> markers m)"

text \<open>\<open>toUpperCase\<close> on Basic Latin text, to run the overlay on.\<close>

definition upper_unit :: "16 word \<Rightarrow> 16 word" where
  "upper_unit c = (if 0x61 \<le> c \<and> c \<le> 0x7A then c - 0x20 else c)"

text \<open>States to run the controller and the overlay on.\<close>

definition willemstad_layer :: layer where
  "willemstad_layer =
     \<lparr>layer_feature = Some willemstad_feature,
      options = \<lparr>fillColor = ''#00D2D3'', weight = 3, opacity = 1, color = ''#1d4ed8'',
                 dashArray = [], fillOpacity = 0.9\<rparr>,
      label = Some \<lparr>label_latlng = (Num 1, Num 2), label_text = js ''Willemstad'',
                    on_map = True, emphasized = True\<rparr>,
      popup = None\<rparr>"

definition bandabou_layer :: layer where
  "bandabou_layer =
     \<lparr>layer_feature = Some bandabou_feature,
      options = \<lparr>fillColor = ''#00D2D3'', weight = 1, opacity = 1, color = ''#ffffff'',
                 dashArray = [], fillOpacity = 0.7\<rparr>,
      label = Some \<lparr>label_latlng = (Num (2 / 3), Num (16 / 3)), label_text = js ''Bandabou'',
                    on_map = False, emphasized = False\<rparr>,
      popup = None\<rparr>"

definition willemstad_selected :: app where
  "willemstad_selected =
     \<lparr>selectedArea = Some (js ''Willemstad''),
      mapInstanceRef = Some \<lparr>view = InitialView, open_popup = None, markers = []\<rparr>,
      geoJsonLayerRef = Some [willemstad_layer, bandabou_layer],
      churchMarkersRef = []\<rparr>"

definition one_vertex_feature :: feature where
  "one_vertex_feature =
     \<lparr>geometry = Polygon [[(3, 4)]],
      properties = Some (no_properties\<lparr>NAME := Some (js ''Klein Curacao'')\<rparr>)\<rparr>"

definition empty_ring_feature :: feature where
  "empty_ring_feature =
     \<lparr>geometry = Polygon [[]],
      properties = Some (no_properties\<lparr>NAME := Some (js ''Klein Curacao'')\<rparr>)\<rparr>"

definition unlabelled_layer :: layer where
  "unlabelled_layer =
     \<lparr>layer_feature = None,
      options = \<lparr>fillColor = [], weight = 1, opacity = 1, color = ''#ffffff'',
                 dashArray = [], fillOpacity = 0.7\<rparr>,
      label = None, popup = None\<rparr>"

definition popup_text :: "properties \<Rightarrow> jsstring" where
  "popup_text props = or_else (NAME props) (js ''Unknown'')"





text \<open>
  Two overlapping calls: a call for Willemstad on its layer starts and awaits; a call for
  Bandabou on its layer starts and runs to its end; then the first call resumes.
\<close>

definition overlapping_calls :: "app \<times> error option" where
  "overlapping_calls =
     (case select_start (js ''Willemstad'') (Some 0) willemstad_selected of
        (s1, awaited) \<Rightarrow>
          (case selectArea popup_text (js ''Bandabou'') (Some 1) s1 of
             (s2, r) \<Rightarrow> select_finish popup_text (js ''Willemstad'') awaited s2))"

definition fortkerk :: ChurchFeature where
  "fortkerk =
     \<lparr>church_name = js ''Fortkerk'', church_area = js ''Willemstad'',
      church_photo = [], church_description = [], church_coordinates = (1, 1)\<rparr>"

definition soto_church :: ChurchFeature where
  "soto_church =
     \<lparr>church_name = js ''Kerk Soto'', church_area = js ''Bandabou'',
      church_photo = [], church_description = [], church_coordinates = (5, 1)\<rparr>"


section \<open>Properties of the Color Assigner\<close>

subsection \<open>The loop is a left fold\<close>

lemma hash_loop_drop:
  "hash_loop areaName i hash = foldl hash_step hash (drop i areaName)"
proof (induction areaName i hash rule: hash_loop.induct)
  case (1 areaName i hash)
  show ?case
  proof (cases "i < length areaName")
    case True
    then have "drop i areaName = areaName ! i # drop (Suc i) areaName"
      by (simp add: Cons_nth_drop_Suc)
    with True "1.IH" show ?thesis
      by (simp add: hash_loop.simps [of areaName i hash])
  next
    case False
    then show ?thesis
      by (simp add: hash_loop.simps [of areaName i hash])
  qed
qed

lemma hash_loop_foldl: "hash_loop areaName 0 0 = foldl hash_step 0 areaName"
  by (simp add: hash_loop_drop)

lemma length_colors: "length colors = 30"
  by (simp add: colors_def)

lemma colorIndex_bound: "colorIndex areaName < length colors"
  by (simp add: colorIndex_def length_colors nat_less_iff)

subsection \<open>The shift and the rounding\<close>

lemma shl5_explicit: "shl5 h = (32 * h + 2147483648) mod 4294967296 - 2147483648"
proof -
  have "push_bit 5 (word_of_int h :: 32 word) = word_of_int (32 * h)"
    by (simp add: push_bit_eq_mult)
  then have "shl5 h = sint (word_of_int (32 * h) :: 32 word)"
    by (simp only: shl5_def)
  also have "\<dots> = signed_take_bit (LENGTH(32) - 1) (32 * h)"
    by (rule sint_sbintrunc')
  also have "\<dots> = signed_take_bit 31 (32 * h)"
    by simp
  also have "\<dots> = take_bit 32 (32 * h + 2 ^ 31) - 2 ^ 31"
    by (simp add: signed_take_bit_eq_take_bit_shift)
  also have "\<dots> = (32 * h + 2147483648) mod 4294967296 - 2147483648"
    by (simp add: take_bit_eq_mod)
  finally show ?thesis .
qed

lemma shl5_range: "- 2147483648 \<le> shl5 h \<and> shl5 h < 2147483648"
proof -
  have "0 \<le> (32 * h + 2147483648) mod 4294967296"
    and "(32 * h + 2147483648) mod 4294967296 < 4294967296"
    by simp_all
  then show ?thesis
    unfolding shl5_explicit by linarith
qed

lemma to_double_exact: "\<bar>x\<bar> < 2 ^ 53 \<Longrightarrow> to_double x = x"
  by (simp add: to_double_def Let_def nat_less_iff)

text \<open>Two roundings above \<open>2^53\<close>, where the doubles are the even integers: ties go to
  the even significand.\<close>

lemma to_double_ties:
  "to_double 9007199254740993 = 9007199254740992"
  "to_double 9007199254740995 = 9007199254740996"
proof -
  have "bit_length 9007199254740993 = 54" and "bit_length 9007199254740995 = 54"
    by (simp_all add: bit_length.simps)
  then show "to_double 9007199254740993 = 9007199254740992"
    and "to_double 9007199254740995 = 9007199254740996"
    by (simp_all add: to_double_def Let_def)
qed

subsection \<open>Size of the accumulator\<close>

text \<open>
  The accumulator grows by less than \<open>2^31 + 2^16\<close> in magnitude at each character, so on
  every name of up to four million code units no value of the loop reaches \<open>2^53\<close> and
  nothing is rounded.
\<close>

lemma hash_step_exact:
  assumes "\<bar>h\<bar> \<le> 4000000 * 2147549183"
  shows "hash_step h c = uint c + (shl5 h - h) \<and> \<bar>hash_step h c\<bar> \<le> \<bar>h\<bar> + 2147549183"
proof -
  have lo: "0 \<le> uint c"
    by simp
  have "uint c < 2 ^ LENGTH(16)"
    by (rule uint_lt2p)
  then have hi: "uint c < 65536"
    by simp
  have p: "(2 :: int) ^ 53 = 9007199254740992"
    by simp
  from assms shl5_range [of h] have "\<bar>shl5 h - h\<bar> < 2 ^ 53"
    unfolding p by linarith
  then have 1: "to_double (shl5 h - h) = shl5 h - h"
    by (rule to_double_exact)
  from assms lo hi shl5_range [of h] have "\<bar>uint c + (shl5 h - h)\<bar> < 2 ^ 53"
    unfolding p by linarith
  then have 2: "to_double (uint c + (shl5 h - h)) = uint c + (shl5 h - h)"
    by (rule to_double_exact)
  from lo hi shl5_range [of h] have "\<bar>uint c + (shl5 h - h)\<bar> \<le> \<bar>h\<bar> + 2147549183"
    by linarith
  with 1 2 show ?thesis
    by (simp add: hash_step_def)
qed

lemma foldl_hash_step_magnitude:
  "length s \<le> 4000000 \<Longrightarrow> \<bar>foldl hash_step 0 s\<bar> \<le> int (length s) * 2147549183"
proof (induction s rule: rev_induct)
  case Nil
  then show ?case by simp
next
  case (snoc c s)
  then have ih: "\<bar>foldl hash_step 0 s\<bar> \<le> int (length s) * 2147549183"
    and len: "length s < 4000000"
    by simp_all
  from len have "int (length s) * 2147549183 \<le> 4000000 * 2147549183"
    by simp
  with ih have "\<bar>foldl hash_step 0 s\<bar> \<le> 4000000 * 2147549183"
    by linarith
  then have "\<bar>hash_step (foldl hash_step 0 s) c\<bar> \<le> \<bar>foldl hash_step 0 s\<bar> + 2147549183"
    using hash_step_exact by blast
  with ih show ?case
    by (simp add: algebra_simps)
qed

lemma hash_loop_snoc_exact:
  assumes "length areaName < 4000000"
  shows "hash_loop (areaName @ [c]) 0 0
     = uint c + (shl5 (hash_loop areaName 0 0) - hash_loop areaName 0 0)"
proof -
  from assms have "\<bar>foldl hash_step 0 areaName\<bar> \<le> int (length areaName) * 2147549183"
    by (simp add: foldl_hash_step_magnitude)
  moreover from assms have "int (length areaName) * 2147549183 \<le> 4000000 * 2147549183"
    by simp
  ultimately have "\<bar>foldl hash_step 0 areaName\<bar> \<le> 4000000 * 2147549183"
    by linarith
  then have "hash_step (foldl hash_step 0 areaName) c
      = uint c + (shl5 (foldl hash_step 0 areaName) - foldl hash_step 0 areaName)"
    using hash_step_exact by blast
  then show ?thesis
    by (simp add: hash_loop_foldl)
qed

subsection \<open>Claims about the Color Assigner\<close>

text \<open>
  C4. \<open>getAreaColor\<close> is a total function of the name, the empty name included. The
  accumulator starts at 0 and is folded over the code units from left to right with
  \<open>acc = charCode + ((acc << 5) - acc)\<close> in double arithmetic, where \<open>acc << 5\<close> is
  \<open>32 * acc\<close> wrapped into the signed 32-bit range and a double is exact below \<open>2^53\<close>
  and rounds to even above; the accumulator is a signed integer throughout, and on
  a name of up to four million code units nothing is rounded and the step is that
  formula on integers. The palette is the fixed list of 30 colors. The index is the
  absolute value of the accumulator modulo 30, which lies inside the palette, and the
  result is the palette entry at that index, hence a member of the palette.
\<close>

theorem getAreaColor_palette_member:
  "hash_loop [] 0 0 = 0
   \<and> hash_loop (areaName @ [c]) 0 0
       = to_double (uint c
           + to_double (shl5 (hash_loop areaName 0 0) - hash_loop areaName 0 0))
   \<and> shl5 h = (32 * h + 2147483648) mod 4294967296 - 2147483648
   \<and> (\<bar>x\<bar> < 2 ^ 53 \<longrightarrow> to_double x = x)
   \<and> to_double 9007199254740993 = 9007199254740992
   \<and> to_double 9007199254740995 = 9007199254740996
   \<and> (length areaName < 4000000 \<longrightarrow>
        hash_loop (areaName @ [c]) 0 0
          = uint c
            + (((32 * hash_loop areaName 0 0 + 2147483648) mod 4294967296 - 2147483648)
               - hash_loop areaName 0 0))
   \<and> colors =
       [''#FF6B6B'', ''#4ECDC4'', ''#45B7D1'', ''#96CEB4'', ''#FECA57'',
        ''#FF9FF3'', ''#54A0FF'', ''#5F27CD'', ''#00D2D3'', ''#FF9F43'',
        ''#C44569'', ''#F8B500'', ''#6C5CE7'', ''#A55EEA'', ''#26DE81'',
        ''#FD79A8'', ''#E17055'', ''#00B894'', ''#0984E3'', ''#6C5CE7'',
        ''#F39C12'', ''#E74C3C'', ''#9B59B6'', ''#3498DB'', ''#1ABC9C'',
        ''#E67E22'', ''#95A5A6'', ''#34495E'', ''#2ECC71'', ''#F1C40F'']
   \<and> length colors = 30
   \<and> colorIndex areaName = nat (\<bar>hash_loop areaName 0 0\<bar> mod 30)
   \<and> colorIndex areaName < 30
   \<and> getAreaColor areaName = colors ! colorIndex areaName
   \<and> getAreaColor areaName \<in> set colors"
proof -
  have 1: "hash_loop [] 0 0 = 0"
    by (simp add: hash_loop_foldl)
  have 2: "hash_loop (areaName @ [c]) 0 0
       = to_double (uint c
           + to_double (shl5 (hash_loop areaName 0 0) - hash_loop areaName 0 0))"
    by (simp add: hash_loop_foldl hash_step_def)
  have 3: "shl5 h = (32 * h + 2147483648) mod 4294967296 - 2147483648"
    by (rule shl5_explicit)
  have 4: "\<bar>x\<bar> < 2 ^ 53 \<longrightarrow> to_double x = x"
    by (simp add: to_double_exact)
  have 5: "length areaName < 4000000 \<longrightarrow>
        hash_loop (areaName @ [c]) 0 0
          = uint c
            + (((32 * hash_loop areaName 0 0 + 2147483648) mod 4294967296 - 2147483648)
               - hash_loop areaName 0 0)"
    using hash_loop_snoc_exact [of areaName c] by (simp only: shl5_explicit) blast
  have 6: "colorIndex areaName = nat (\<bar>hash_loop areaName 0 0\<bar> mod 30)"
    by (simp add: colorIndex_def length_colors)
  have 7: "colorIndex areaName < 30"
    using colorIndex_bound [of areaName] by (simp add: length_colors)
  have 8: "getAreaColor areaName \<in> set colors"
    unfolding getAreaColor_def by (rule nth_mem) (rule colorIndex_bound)
  have 9: "getAreaColor areaName = colors ! colorIndex areaName"
    by (rule getAreaColor_def)
  from 1 2 3 4 5 6 7 8 9 colors_def length_colors to_double_ties show ?thesis
    by (simp only: simp_thms)
qed

theorem getAreaColor_palette_member_witness:
  "hash_loop (js ''Pund'') 0 0 = 2499227
   \<and> hash_loop (js ''Punda'') 0 0 = 77476134
   \<and> to_double 77476134 = 77476134
   \<and> colorIndex (js ''Punda'') = 24
   \<and> getAreaColor (js ''Punda'') = ''#1ABC9C''"
proof -
  have pund: "hash_loop (js ''Pund'') 0 0 = 2499227"
    by (simp add: hash_loop_foldl js_def hash_step_def shl5_def to_double_def Let_def)
  have split: "js ''Punda'' = js ''Pund'' @ [0x61]"
    by (simp add: js_def)
  have len: "length (js ''Pund'') < 4000000"
    by (simp add: js_def)
  have small: "\<bar>77476134 :: int\<bar> < 2 ^ 53"
    by simp
  note t = getAreaColor_palette_member [where areaName = "js ''Pund''" and c = "0x61"
      and x = 77476134]
  from t len have "hash_loop (js ''Pund'' @ [0x61]) 0 0
      = uint (0x61 :: 16 word)
        + (((32 * hash_loop (js ''Pund'') 0 0 + 2147483648) mod 4294967296 - 2147483648)
           - hash_loop (js ''Pund'') 0 0)"
    by blast
  then have punda: "hash_loop (js ''Punda'') 0 0 = 77476134"
    by (simp add: pund split)
  from t small have exact: "to_double 77476134 = 77476134"
    by blast
  note u = getAreaColor_palette_member [where areaName = "js ''Punda''"]
  from u have "colorIndex (js ''Punda'') = nat (\<bar>hash_loop (js ''Punda'') 0 0\<bar> mod 30)"
    by blast
  then have idx: "colorIndex (js ''Punda'') = 24"
    by (simp add: punda)
  from u have "getAreaColor (js ''Punda'') = colors ! colorIndex (js ''Punda'')"
    by blast
  then have col: "getAreaColor (js ''Punda'') = ''#1ABC9C''"
    by (simp add: idx colors_def)
  from pund punda exact idx col show ?thesis
    by (simp only: simp_thms)
qed

text \<open>
  C5. Distinct names do not always get distinct colors. The two area names of the
  end-to-end scenario, Willemstad and Bandabou, both hash to palette index 8 and are both
  drawn in \<open>#00D2D3\<close>.
\<close>

theorem getAreaColor_collision:
  "js ''Willemstad'' \<noteq> js ''Bandabou''
   \<and> colorIndex (js ''Willemstad'') = 8
   \<and> colorIndex (js ''Bandabou'') = 8
   \<and> getAreaColor (js ''Willemstad'') = ''#00D2D3''
   \<and> getAreaColor (js ''Bandabou'') = ''#00D2D3''"
proof -
  have w: "hash_loop (js ''Willemstad'') 0 0 = - 1414109858"
    by (simp add: hash_loop_foldl js_def hash_step_def shl5_def to_double_def Let_def)
  have b: "hash_loop (js ''Bandabou'') 0 0 = 2494422428"
    by (simp add: hash_loop_foldl js_def hash_step_def shl5_def to_double_def Let_def)
  have iw: "colorIndex (js ''Willemstad'') = 8"
    by (simp add: colorIndex_def w length_colors)
  have ib: "colorIndex (js ''Bandabou'') = 8"
    by (simp add: colorIndex_def b length_colors)
  have "colors ! 8 = ''#00D2D3''"
    by (simp add: colors_def)
  with iw ib show ?thesis
    by (simp add: getAreaColor_def js_def)
qed
section \<open>Properties of the Area Info Fetcher\<close>

lemma well_formed_append:
  "well_formed s \<Longrightarrow> well_formed t \<Longrightarrow> well_formed (s @ t)"
proof (induction s rule: well_formed.induct)
  case 1
  then show ?case by simp
next
  case (2 c)
  then show ?case by (cases t) auto
next
  case (3 c d s)
  then show ?case by auto
qed

lemma well_formed_append_left:
  "well_formed (s @ c # t) \<Longrightarrow> \<not> is_low_surrogate c \<Longrightarrow> well_formed s"
proof (induction s rule: well_formed.induct)
  case 1
  then show ?case by simp
next
  case (2 a)
  then show ?case by (auto split: if_splits)
next
  case (3 a d s)
  then show ?case by (auto split: if_splits)
qed

lemma well_formed_curacao_query [simp]:
  "well_formed (curacao_query areaName) = well_formed areaName"
proof
  assume "well_formed (curacao_query areaName)"
  then have "well_formed (areaName @ 0x20 # js ''Cura'' @ [0xE7] @ js ''ao'')"
    by (simp add: curacao_query_def js_def)
  then show "well_formed areaName"
    by (rule well_formed_append_left) (simp add: is_low_surrogate_def)
next
  assume "well_formed areaName"
  then show "well_formed (curacao_query areaName)"
    unfolding curacao_query_def
    by (rule well_formed_append)
       (simp add: js_def is_high_surrogate_def is_low_surrogate_def)
qed

lemma search_step_eq:
  "search_step w q =
     (if well_formed q then ([SearchRequest q], fetch_search w q) else ([], Inl URIError))"
  by (simp add: search_step_def encodeURIComponent_def)

lemma summary_step_eq:
  "summary_step w t =
     (if well_formed t then ([SummaryRequest t], fetch_summary w t) else ([], Inl URIError))"
  by (simp add: summary_step_def encodeURIComponent_def)

lemma fetchAreaInfo_returns: "\<exists>reqs info. fetchAreaInfo w areaName = (reqs, Inr info)"
  by (cases "fetchAreaInfo_try w areaName") (auto simp: fetchAreaInfo_def split: sum.splits)

lemmas fetchAreaInfo_unfold =
  fetchAreaInfo_def fetchAreaInfo_try_def search_step_eq summary_step_eq

text \<open>
  C2. \<open>fetchAreaInfo\<close> returns a record on every input and every behaviour of the
  service. When the search for the area name followed by the island's name and the
  fallback search for the name alone both return no result, it returns the record "No
  Wikipedia information available for this area." with no thumbnail and no page URL.
  When a step fails (the name cannot be encoded, the first search fails, the fallback
  search fails, the summary fetch fails after either search), no further request is
  issued and the record "Information not available." is returned.
\<close>

theorem fetchAreaInfo_never_raises:
  "(\<exists>reqs info. fetchAreaInfo w areaName = (reqs, Inr info))
   \<and> (well_formed areaName
        \<and> fetch_search w (curacao_query areaName) = Inr []
        \<and> fetch_search w areaName = Inr []
      \<longrightarrow> fetchAreaInfo w areaName =
            ([SearchRequest (curacao_query areaName), SearchRequest areaName],
             Inr \<lparr>title = areaName,
                  extract = js ''No Wikipedia information available for this area.'',
                  thumbnail = None, pageUrl = None\<rparr>))
   \<and> (\<not> well_formed areaName
      \<longrightarrow> fetchAreaInfo w areaName = ([], Inr \<lparr>title = areaName, extract = js ''Information not available.'',
                  thumbnail = None, pageUrl = None\<rparr>))
   \<and> (well_formed areaName \<and> fetch_search w (curacao_query areaName) = Inl e
      \<longrightarrow> fetchAreaInfo w areaName =
            ([SearchRequest (curacao_query areaName)],
             Inr \<lparr>title = areaName, extract = js ''Information not available.'',
                  thumbnail = None, pageUrl = None\<rparr>))
   \<and> (well_formed areaName
        \<and> fetch_search w (curacao_query areaName) = Inr []
        \<and> fetch_search w areaName = Inl e
      \<longrightarrow> fetchAreaInfo w areaName =
            ([SearchRequest (curacao_query areaName), SearchRequest areaName],
             Inr \<lparr>title = areaName, extract = js ''Information not available.'',
                  thumbnail = None, pageUrl = None\<rparr>))
   \<and> (well_formed areaName \<and> well_formed firstTitle
        \<and> fetch_search w (curacao_query areaName) = Inr (firstTitle # others)
        \<and> fetch_summary w firstTitle = Inl e
      \<longrightarrow> fetchAreaInfo w areaName =
            ([SearchRequest (curacao_query areaName), SummaryRequest firstTitle],
             Inr \<lparr>title = areaName, extract = js ''Information not available.'',
                  thumbnail = None, pageUrl = None\<rparr>))
   \<and> (well_formed areaName \<and> well_formed firstTitle
        \<and> fetch_search w (curacao_query areaName) = Inr []
        \<and> fetch_search w areaName = Inr (firstTitle # others)
        \<and> fetch_summary w firstTitle = Inl e
      \<longrightarrow> fetchAreaInfo w areaName =
            ([SearchRequest (curacao_query areaName), SearchRequest areaName,
              SummaryRequest firstTitle],
             Inr \<lparr>title = areaName, extract = js ''Information not available.'',
                  thumbnail = None, pageUrl = None\<rparr>))"
proof (intro conjI impI)
  show "\<exists>reqs info. fetchAreaInfo w areaName = (reqs, Inr info)"
    by (rule fetchAreaInfo_returns)
qed (simp_all add: fetchAreaInfo_unfold no_wikipedia_info_def information_not_available_def)


lemma well_formed_Punda: "well_formed (js ''Punda'')"
  by (simp add: js_def is_high_surrogate_def is_low_surrogate_def)

lemma curacao_query_Punda: "curacao_query (js ''Punda'') \<noteq> js ''Punda''"
  by (simp add: curacao_query_def)

theorem fetchAreaInfo_never_raises_witness:
  "fetchAreaInfo wikipedia_no_hits (js ''Punda'') =
     ([SearchRequest (curacao_query (js ''Punda'')), SearchRequest (js ''Punda'')],
      Inr \<lparr>title = (js ''Punda''),
                  extract = js ''No Wikipedia information available for this area.'',
                  thumbnail = None, pageUrl = None\<rparr>)
   \<and> fetchAreaInfo wikipedia_offline [0xD800] =
     ([], Inr \<lparr>title = [0xD800], extract = js ''Information not available.'',
                  thumbnail = None, pageUrl = None\<rparr>)
   \<and> fetchAreaInfo wikipedia_offline (js ''Punda'') =
     ([SearchRequest (curacao_query (js ''Punda''))],
      Inr \<lparr>title = (js ''Punda''), extract = js ''Information not available.'',
                  thumbnail = None, pageUrl = None\<rparr>)
   \<and> fetchAreaInfo wikipedia_fallback_fails (js ''Punda'') =
     ([SearchRequest (curacao_query (js ''Punda'')), SearchRequest (js ''Punda'')],
      Inr \<lparr>title = (js ''Punda''), extract = js ''Information not available.'',
                  thumbnail = None, pageUrl = None\<rparr>)
   \<and> fetchAreaInfo wikipedia_no_summary (js ''Punda'') =
     ([SearchRequest (curacao_query (js ''Punda'')), SummaryRequest (js ''Punda'')],
      Inr \<lparr>title = (js ''Punda''), extract = js ''Information not available.'',
                  thumbnail = None, pageUrl = None\<rparr>)
   \<and> fetchAreaInfo wikipedia_fallback_no_summary (js ''Punda'') =
     ([SearchRequest (curacao_query (js ''Punda'')), SearchRequest (js ''Punda''),
       SummaryRequest (js ''Punda'')],
      Inr \<lparr>title = (js ''Punda''), extract = js ''Information not available.'',
                  thumbnail = None, pageUrl = None\<rparr>)"
proof -
  have nw: "\<not> well_formed [0xD800]"
    by (simp add: is_high_surrogate_def)
  have s1: "fetch_search wikipedia_no_hits (curacao_query (js ''Punda'')) = Inr []"
    and s2: "fetch_search wikipedia_no_hits (js ''Punda'') = Inr []"
    by (simp_all add: wikipedia_no_hits_def)
  have s3: "fetch_search wikipedia_offline (curacao_query (js ''Punda'')) = Inl NetworkError"
    by (simp add: wikipedia_offline_def)
  have s4: "fetch_search wikipedia_fallback_fails (curacao_query (js ''Punda'')) = Inr []"
    and s5: "fetch_search wikipedia_fallback_fails (js ''Punda'') = Inl NetworkError"
    by (simp_all add: wikipedia_fallback_fails_def curacao_query_Punda)
  have s6: "fetch_search wikipedia_no_summary (curacao_query (js ''Punda''))
      = Inr (js ''Punda'' # [])"
    and s7: "fetch_summary wikipedia_no_summary (js ''Punda'') = Inl SyntaxError"
    by (simp_all add: wikipedia_no_summary_def)
  have s8: "fetch_search wikipedia_fallback_no_summary (curacao_query (js ''Punda'')) = Inr []"
    and s9: "fetch_search wikipedia_fallback_no_summary (js ''Punda'')
      = Inr (js ''Punda'' # [])"
    and s10: "fetch_summary wikipedia_fallback_no_summary (js ''Punda'') = Inl SyntaxError"
    by (simp_all add: wikipedia_fallback_no_summary_def curacao_query_Punda)
  from fetchAreaInfo_never_raises [of wikipedia_no_hits "js ''Punda''"] well_formed_Punda s1 s2
  have 1: "fetchAreaInfo wikipedia_no_hits (js ''Punda'') =
     ([SearchRequest (curacao_query (js ''Punda'')), SearchRequest (js ''Punda'')],
      Inr \<lparr>title = (js ''Punda''),
                  extract = js ''No Wikipedia information available for this area.'',
                  thumbnail = None, pageUrl = None\<rparr>)"
    by blast
  from fetchAreaInfo_never_raises [of wikipedia_offline "[0xD800]"] nw
  have 2: "fetchAreaInfo wikipedia_offline [0xD800] =
     ([], Inr \<lparr>title = [0xD800], extract = js ''Information not available.'',
                  thumbnail = None, pageUrl = None\<rparr>)"
    by blast
  from fetchAreaInfo_never_raises [of wikipedia_offline "js ''Punda''" NetworkError]
    well_formed_Punda s3
  have 3: "fetchAreaInfo wikipedia_offline (js ''Punda'') =
     ([SearchRequest (curacao_query (js ''Punda''))],
      Inr \<lparr>title = (js ''Punda''), extract = js ''Information not available.'',
                  thumbnail = None, pageUrl = None\<rparr>)"
    by blast
  from fetchAreaInfo_never_raises [of wikipedia_fallback_fails "js ''Punda''" NetworkError]
    well_formed_Punda s4 s5
  have 4: "fetchAreaInfo wikipedia_fallback_fails (js ''Punda'') =
     ([SearchRequest (curacao_query (js ''Punda'')), SearchRequest (js ''Punda'')],
      Inr \<lparr>title = (js ''Punda''), extract = js ''Information not available.'',
                  thumbnail = None, pageUrl = None\<rparr>)"
    by blast
  from fetchAreaInfo_never_raises [of wikipedia_no_summary "js ''Punda''" SyntaxError
      "js ''Punda''" "[]"] well_formed_Punda s6 s7
  have 5: "fetchAreaInfo wikipedia_no_summary (js ''Punda'') =
     ([SearchRequest (curacao_query (js ''Punda'')), SummaryRequest (js ''Punda'')],
      Inr \<lparr>title = (js ''Punda''), extract = js ''Information not available.'',
                  thumbnail = None, pageUrl = None\<rparr>)"
    by blast
  from fetchAreaInfo_never_raises [of wikipedia_fallback_no_summary "js ''Punda''" SyntaxError
      "js ''Punda''" "[]"] well_formed_Punda s8 s9 s10
  have 6: "fetchAreaInfo wikipedia_fallback_no_summary (js ''Punda'') =
     ([SearchRequest (curacao_query (js ''Punda'')), SearchRequest (js ''Punda''),
       SummaryRequest (js ''Punda'')],
      Inr \<lparr>title = (js ''Punda''), extract = js ''Information not available.'',
                  thumbnail = None, pageUrl = None\<rparr>)"
    by blast
  from 1 2 3 4 5 6 show ?thesis
    by (simp only: simp_thms)
qed

text \<open>
  C3 (as amended). On the success path (a search returns at least one result and the
  summary of the first result is fetched), each field falls back with \<open>||\<close>: when the
  summary's field is absent or is the empty string. The title falls back to the area
  name, the extract to "No description available.", the thumbnail and the page URL to
  none.
\<close>

theorem fetchAreaInfo_success_record:
  assumes "well_formed areaName" and "well_formed firstTitle"
    and "fetch_search w (curacao_query areaName) = Inr (firstTitle # others)
         \<or> (fetch_search w (curacao_query areaName) = Inr []
            \<and> fetch_search w areaName = Inr (firstTitle # others))"
    and "fetch_summary w firstTitle = Inr summaryData"
  shows "snd (fetchAreaInfo w areaName) =
     Inr \<lparr>title =
            (if summary_title summaryData = None \<or> summary_title summaryData = Some []
             then areaName else the (summary_title summaryData)),
          extract =
            (if summary_extract summaryData = None \<or> summary_extract summaryData = Some []
             then js ''No description available.'' else the (summary_extract summaryData)),
          thumbnail =
            (case summary_thumbnail summaryData of
               None \<Rightarrow> None
             | Some t \<Rightarrow> if source t = Some [] then None else source t),
          pageUrl =
            (case summary_content_urls summaryData of
               None \<Rightarrow> None
             | Some c \<Rightarrow>
                 (case desktop c of
                    None \<Rightarrow> None
                  | Some d \<Rightarrow> if page d = Some [] then None else page d))\<rparr>"
proof -
  have t: "or_else v d = (if v = None \<or> v = Some [] then d else the v)" for v d
    by (cases v) (simp_all add: or_else_def)
  have n: "or_null v = (if v = Some [] then None else v)" for v
    by (cases v) (simp_all add: or_null_def)
  have th: "or_null (case summary_thumbnail summaryData of None \<Rightarrow> None | Some t \<Rightarrow> source t)
      = (case summary_thumbnail summaryData of
           None \<Rightarrow> None
         | Some t \<Rightarrow> if source t = Some [] then None else source t)"
    by (cases "summary_thumbnail summaryData") (simp_all add: n or_null_def)
  have pg: "or_null (case summary_content_urls summaryData of
                      None \<Rightarrow> None
                    | Some c \<Rightarrow> (case desktop c of None \<Rightarrow> None | Some d \<Rightarrow> page d))
      = (case summary_content_urls summaryData of
           None \<Rightarrow> None
         | Some c \<Rightarrow>
             (case desktop c of
                None \<Rightarrow> None
              | Some d \<Rightarrow> if page d = Some [] then None else page d))"
  proof (cases "summary_content_urls summaryData")
    case None
    then show ?thesis by (simp add: or_null_def)
  next
    case (Some c)
    then show ?thesis by (cases "desktop c") (simp_all add: n or_null_def)
  qed
  from assms(3) show ?thesis
  proof
    assume "fetch_search w (curacao_query areaName) = Inr (firstTitle # others)"
    with assms(1,2,4) show ?thesis
      by (simp add: fetchAreaInfo_unfold t th pg)
  next
    assume "fetch_search w (curacao_query areaName) = Inr []
            \<and> fetch_search w areaName = Inr (firstTitle # others)"
    with assms(1,2,4) show ?thesis
      by (simp add: fetchAreaInfo_unfold t th pg)
  qed
qed

theorem fetchAreaInfo_success_record_witness:
  "snd (fetchAreaInfo wikipedia_blank_extract (js ''Punda'')) =
     Inr \<lparr>title = js ''Punda'', extract = js ''No description available.'',
          thumbnail = None, pageUrl = None\<rparr>
   \<and> snd (fetchAreaInfo wikipedia_fallback_hit (js ''Punda'')) =
     Inr \<lparr>title = js ''Punda'', extract = js ''Punda is a district of Willemstad.'',
          thumbnail = Some (js ''punda.jpg''), pageUrl = Some (js ''wiki/Punda'')\<rparr>"
proof -
  have s: "fetch_search wikipedia_blank_extract (curacao_query (js ''Punda''))
             = Inr (js ''Punda'' # [])"
    by (simp add: wikipedia_blank_extract_def)
  have t: "fetch_summary wikipedia_blank_extract (js ''Punda'') = Inr blank_extract_summary"
    by (simp add: wikipedia_blank_extract_def)
  have f: "fetch_search wikipedia_fallback_hit (curacao_query (js ''Punda'')) = Inr []
      \<and> fetch_search wikipedia_fallback_hit (js ''Punda'') = Inr (js ''Punda'' # [])"
    by (simp add: wikipedia_fallback_hit_def curacao_query_Punda)
  have u: "fetch_summary wikipedia_fallback_hit (js ''Punda'') = Inr full_summary"
    by (simp add: wikipedia_fallback_hit_def)
  have n: "js ''Punda'' \<noteq> []" "js ''Punda is a district of Willemstad.'' \<noteq> []"
    "js ''punda.jpg'' \<noteq> []" "js ''wiki/Punda'' \<noteq> []"
    by (simp_all add: js_def)
  from fetchAreaInfo_success_record [OF well_formed_Punda well_formed_Punda disjI1 [OF s] t] n
  have 1: "snd (fetchAreaInfo wikipedia_blank_extract (js ''Punda'')) =
     Inr \<lparr>title = js ''Punda'', extract = js ''No description available.'',
          thumbnail = None, pageUrl = None\<rparr>"
    by (simp add: blank_extract_summary_def)
  from fetchAreaInfo_success_record [OF well_formed_Punda well_formed_Punda disjI2 [OF f] u] n
  have 2: "snd (fetchAreaInfo wikipedia_fallback_hit (js ''Punda'')) =
     Inr \<lparr>title = js ''Punda'', extract = js ''Punda is a district of Willemstad.'',
          thumbnail = Some (js ''punda.jpg''), pageUrl = Some (js ''wiki/Punda'')\<rparr>"
    by (simp add: full_summary_def)
  from 1 2 show ?thesis
    by (simp only: simp_thms)
qed

text \<open>
  C3 as stated fails: with \<open>??\<close> an empty extract would be returned as it is, but the
  code replaces it by "No description available.".
\<close>

theorem fetchAreaInfo_empty_extract_counterexample:
  "snd (fetchAreaInfo wikipedia_blank_extract (js ''Punda'')) =
     Inr \<lparr>title = js ''Punda'', extract = js ''No description available.'',
          thumbnail = None, pageUrl = None\<rparr>
   \<and> claimed_summary (js ''Punda'') blank_extract_summary =
     \<lparr>title = js ''Punda'', extract = [], thumbnail = None, pageUrl = None\<rparr>
   \<and> snd (fetchAreaInfo wikipedia_blank_extract (js ''Punda''))
     \<noteq> Inr (claimed_summary (js ''Punda'') blank_extract_summary)"
proof -
  have r: "snd (fetchAreaInfo wikipedia_blank_extract (js ''Punda'')) =
     Inr \<lparr>title = js ''Punda'', extract = js ''No description available.'',
          thumbnail = None, pageUrl = None\<rparr>"
    using well_formed_Punda
    by (simp add: fetchAreaInfo_unfold wikipedia_blank_extract_def blank_extract_summary_def
        or_else_def or_null_def)
  have c: "claimed_summary (js ''Punda'') blank_extract_summary =
     \<lparr>title = js ''Punda'', extract = [], thumbnail = None, pageUrl = None\<rparr>"
    by (simp add: claimed_summary_def blank_extract_summary_def nullish_else_def)
  have "js ''No description available.'' \<noteq> []"
    by (simp add: js_def)
  with r c show ?thesis
    by simp
qed
section \<open>Properties of the Geo Data Loader\<close>

lemma array_map_Inr:
  "array_map f xs = Inr ys \<Longrightarrow> map f xs = map Inr ys"
proof (induction xs arbitrary: ys)
  case Nil
  then show ?case by simp
next
  case (Cons x xs)
  then show ?case
    by (auto split: sum.splits)
qed

lemma array_map_total:
  "(\<And>x. x \<in> set xs \<Longrightarrow> \<exists>y. f x = Inr y) \<Longrightarrow> \<exists>ys. array_map f xs = Inr ys"
proof (induction xs)
  case Nil
  then show ?case by simp
next
  case (Cons x xs)
  from Cons.prems [of x] obtain y where "f x = Inr y"
    by auto
  moreover from Cons obtain ys where "array_map f xs = Inr ys"
    by auto
  ultimately show ?case
    by simp
qed

lemma area_of_feature_name:
  "area_of_feature f = Inr a \<Longrightarrow> name a = feature_area_name f"
  by (auto simp: area_of_feature_def feature_area_name_def split: option.splits)

lemma array_map_area_names:
  "array_map area_of_feature fs = Inr areaList \<Longrightarrow>
   map name areaList = map feature_area_name fs"
proof (induction fs arbitrary: areaList)
  case Nil
  then show ?case by simp
next
  case (Cons f fs)
  then show ?case
    by (auto split: sum.splits simp: area_of_feature_name)
qed

lemma mset_insert_by: "mset (insert_by lc a bs) = add_mset a (mset bs)"
  by (induction bs) simp_all

lemma mset_array_sort: "mset (array_sort lc areaList) = mset areaList"
  unfolding array_sort_def by (induction areaList) (simp_all add: mset_insert_by)

lemma loadGeoJSON_area_names:
  assumes "loadGeoJSON lc features = Inr (areaList, churchList)"
  shows "mset (map name areaList) = mset (map feature_area_name (filter is_polygon features))"
proof -
  from assms obtain unsorted
    where m: "array_map area_of_feature (filter is_polygon features) = Inr unsorted"
      and s: "areaList = array_sort lc unsorted"
    by (auto simp: loadGeoJSON_def split: sum.splits)
  have "mset (map name areaList) = image_mset name (mset (array_sort lc unsorted))"
    by (simp add: s)
  also have "\<dots> = mset (map name unsorted)"
    by (simp add: mset_array_sort)
  also have "\<dots> = mset (map feature_area_name (filter is_polygon features))"
    using m by (simp only: array_map_area_names)
  finally show ?thesis .
qed

lemma loadGeoJSON_basic_area_names:
  assumes "loadGeoJSON_basic lc features = Inr areaList"
  shows "mset (map name areaList) = mset (map feature_area_name features)"
proof -
  from assms obtain unsorted
    where m: "array_map area_of_feature features = Inr unsorted"
      and s: "areaList = array_sort lc unsorted"
    by (auto simp: loadGeoJSON_basic_def split: sum.splits)
  have "mset (map name areaList) = image_mset name (mset (array_sort lc unsorted))"
    by (simp add: s)
  also have "\<dots> = mset (map name unsorted)"
    by (simp add: mset_array_sort)
  also have "\<dots> = mset (map feature_area_name features)"
    using m by (simp only: array_map_area_names)
  finally show ?thesis .
qed

text \<open>The load succeeds when no polygon and no point feature has \<open>null\<close> properties.\<close>

lemma loadGeoJSON_succeeds:
  assumes "\<And>f. f \<in> set features \<Longrightarrow> is_polygon f \<or> is_point f \<Longrightarrow> properties f \<noteq> None"
  shows "\<exists>areaList churchList. loadGeoJSON lc features = Inr (areaList, churchList)"
proof -
  have "\<exists>ys. array_map area_of_feature (filter is_polygon features) = Inr ys"
    by (rule array_map_total) (use assms in \<open>fastforce simp: area_of_feature_def\<close>)
  moreover have "\<exists>ys. array_map church_of_feature (filter is_point features) = Inr ys"
    by (rule array_map_total) (use assms in \<open>fastforce simp: church_of_feature_def\<close>)
  ultimately show ?thesis
    by (auto simp: loadGeoJSON_def)
qed

text \<open>
  C9 (as amended). When the load succeeds, the names of the area records of the full
  variant are, with multiplicity, the names \<open>NAME || 'Unknown'\<close> of the Polygon and
  MultiPolygon features of the dataset; in particular their set is the set of those
  names. In the basic variant they are the names of all the features of the dataset,
  whatever their geometry.
\<close>

theorem loadGeoJSON_names:
  "(loadGeoJSON lc features = Inr (areaList, churchList)
      \<longrightarrow> mset (map name areaList) = mset (map feature_area_name (filter is_polygon features))
          \<and> set (map name areaList) = set (map feature_area_name (filter is_polygon features)))
   \<and> (loadGeoJSON_basic lc features = Inr basicList
      \<longrightarrow> mset (map name basicList) = mset (map feature_area_name features)
          \<and> set (map name basicList) = set (map feature_area_name features))"
proof (intro conjI impI)
  assume a: "loadGeoJSON lc features = Inr (areaList, churchList)"
  then show m: "mset (map name areaList)
      = mset (map feature_area_name (filter is_polygon features))"
    by (rule loadGeoJSON_area_names)
  then show "set (map name areaList) = set (map feature_area_name (filter is_polygon features))"
    by (rule mset_eq_setD)
next
  assume a: "loadGeoJSON_basic lc features = Inr basicList"
  then show m: "mset (map name basicList) = mset (map feature_area_name features)"
    by (rule loadGeoJSON_basic_area_names)
  then show "set (map name basicList) = set (map feature_area_name features)"
    by (rule mset_eq_setD)
qed

lemma loadGeoJSON_example:
  "loadGeoJSON code_unit_compare [willemstad_feature, church_feature, bandabou_feature] =
     Inr ([\<lparr>name = js ''Bandabou'', population = 8000, households = 0, meanIncome = 0\<rparr>,
           \<lparr>name = js ''Willemstad'', population = 150000, households = 0, meanIncome = 0\<rparr>],
          [\<lparr>church_name = js ''Fortkerk'', church_area = js ''Willemstad'',
            church_photo = [], church_description = [], church_coordinates = (1, 1)\<rparr>])"
  by (simp add: loadGeoJSON_def willemstad_feature_def church_feature_def bandabou_feature_def
      is_polygon_def is_point_def area_of_feature_def church_of_feature_def array_sort_def
      or_else_def or_zero_def no_properties_def js_def)

lemma loadGeoJSON_basic_example:
  "loadGeoJSON_basic code_unit_compare [willemstad_feature, church_feature] =
     Inr [\<lparr>name = js ''Unknown'', population = 0, households = 0, meanIncome = 0\<rparr>,
          \<lparr>name = js ''Willemstad'', population = 150000, households = 0, meanIncome = 0\<rparr>]"
  by (simp add: loadGeoJSON_basic_def willemstad_feature_def church_feature_def
      area_of_feature_def array_sort_def or_else_def or_zero_def no_properties_def js_def)

theorem loadGeoJSON_names_witness:
  "loadGeoJSON code_unit_compare [willemstad_feature, church_feature, bandabou_feature] =
     Inr ([\<lparr>name = js ''Bandabou'', population = 8000, households = 0, meanIncome = 0\<rparr>,
           \<lparr>name = js ''Willemstad'', population = 150000, households = 0, meanIncome = 0\<rparr>],
          [\<lparr>church_name = js ''Fortkerk'', church_area = js ''Willemstad'',
            church_photo = [], church_description = [], church_coordinates = (1, 1)\<rparr>])
   \<and> {js ''Bandabou'', js ''Willemstad''}
       = set (map feature_area_name
           (filter is_polygon [willemstad_feature, church_feature, bandabou_feature]))
   \<and> loadGeoJSON_basic code_unit_compare [willemstad_feature, church_feature] =
     Inr [\<lparr>name = js ''Unknown'', population = 0, households = 0, meanIncome = 0\<rparr>,
          \<lparr>name = js ''Willemstad'', population = 150000, households = 0, meanIncome = 0\<rparr>]
   \<and> {js ''Unknown'', js ''Willemstad''}
       = set (map feature_area_name [willemstad_feature, church_feature])"
proof -
  have e1: "set (map name
        [\<lparr>name = js ''Bandabou'', population = 8000, households = 0, meanIncome = 0\<rparr>,
         \<lparr>name = js ''Willemstad'', population = 150000, households = 0, meanIncome = 0\<rparr>])
      = {js ''Bandabou'', js ''Willemstad''}"
    by simp
  have e2: "set (map name
        [\<lparr>name = js ''Unknown'', population = 0, households = 0, meanIncome = 0\<rparr>,
         \<lparr>name = js ''Willemstad'', population = 150000, households = 0, meanIncome = 0\<rparr>])
      = {js ''Unknown'', js ''Willemstad''}"
    by simp
  note f1 = loadGeoJSON_names [THEN conjunct1, THEN mp, OF loadGeoJSON_example, THEN conjunct2]
  note f2 = loadGeoJSON_names [THEN conjunct2, THEN mp, OF loadGeoJSON_basic_example,
      THEN conjunct2]
  have 1: "{js ''Bandabou'', js ''Willemstad''}
       = set (map feature_area_name
           (filter is_polygon [willemstad_feature, church_feature, bandabou_feature]))"
    using f1 unfolding e1 .
  have 2: "{js ''Unknown'', js ''Willemstad''}
       = set (map feature_area_name [willemstad_feature, church_feature])"
    using f2 unfolding e2 .
  from 1 2 loadGeoJSON_example loadGeoJSON_basic_example show ?thesis
    by (simp only: simp_thms)
qed

text \<open>
  C9 as stated fails on the basic variant: a dataset made of one Point feature has no
  polygon feature, and the basic loader makes an area record named "Unknown" from the
  point.
\<close>

theorem loadGeoJSON_basic_point_counterexample:
  "is_point church_feature
   \<and> filter is_polygon [church_feature] = []
   \<and> loadGeoJSON_basic code_unit_compare [church_feature] =
     Inr [\<lparr>name = js ''Unknown'', population = 0, households = 0, meanIncome = 0\<rparr>]"
  by (simp add: loadGeoJSON_basic_def church_feature_def is_point_def is_polygon_def
      area_of_feature_def array_sort_def or_else_def or_zero_def no_properties_def)

section \<open>Properties of the Search Filter\<close>

lemma includes_sublist: "string_includes s q = sublist q s"
  by (induction s) (simp_all add: sublist_Cons_right)

lemma trim_empty_iff: "trim s = [] \<longleftrightarrow> (\<forall>c \<in> set s. is_white_space c)"
proof -
  have "(\<forall>c \<in> set (dropWhile is_white_space s). is_white_space c)
        \<longleftrightarrow> dropWhile is_white_space s = []"
  proof
    assume all: "\<forall>c \<in> set (dropWhile is_white_space s). is_white_space c"
    show "dropWhile is_white_space s = []"
    proof (rule ccontr)
      assume ne: "dropWhile is_white_space s \<noteq> []"
      then have "\<not> is_white_space (hd (dropWhile is_white_space s))"
        by (rule hd_dropWhile)
      moreover from ne have "hd (dropWhile is_white_space s) \<in> set (dropWhile is_white_space s)"
        by (rule hd_in_set)
      ultimately show False
        using all by blast
    qed
  next
    assume empty: "dropWhile is_white_space s = []"
    show "\<forall>c \<in> set (dropWhile is_white_space s). is_white_space c"
      unfolding empty by simp
  qed
  then show ?thesis
    by (simp add: trim_def dropWhile_eq_Nil_conv)
qed

lemma handle_search_blank:
  "\<forall>c \<in> set searchTerm. is_white_space c \<Longrightarrow> handle_search lc searchTerm areas = areas"
  by (simp add: handle_search_def trim_empty_iff)

lemma handle_search_filter:
  "\<not> (\<forall>c \<in> set searchTerm. is_white_space c) \<Longrightarrow>
   handle_search lc searchTerm areas
     = filter (\<lambda>area. sublist (lc searchTerm) (lc (name area))) areas"
  by (auto simp: handle_search_def trim_empty_iff includes_sublist)

lemma handle_search_subseq: "subseq (handle_search lc searchTerm areas) areas"
  by (simp add: handle_search_def)

lemma subseq_filter_mono:
  "(\<And>x. x \<in> set xs \<Longrightarrow> P x \<Longrightarrow> Q x) \<Longrightarrow> subseq (filter P xs) (filter Q xs)"
proof (induction xs)
  case Nil
  then show ?case by simp
next
  case (Cons x xs)
  then have "subseq (filter P xs) (filter Q xs)"
    by simp
  with Cons.prems [of x] show ?case
    by (auto intro: subseq_Cons')
qed

lemma subseq_set_mono: "subseq xs ys \<Longrightarrow> set xs \<subseteq> set ys"
  by (auto elim: list_emb_set)

lemma handle_search_monotone:
  assumes "prefix looser stricter" and "sublist (lc looser) (lc stricter)"
  shows "subseq (handle_search lc stricter areas) (handle_search lc looser areas)"
proof (cases "\<forall>c \<in> set looser. is_white_space c")
  case True
  then have "handle_search lc looser areas = areas"
    by (rule handle_search_blank)
  then show ?thesis
    by (simp add: handle_search_subseq)
next
  case False
  from assms(1) have "set looser \<subseteq> set stricter"
    by (rule set_mono_prefix)
  with False have strict: "\<not> (\<forall>c \<in> set stricter. is_white_space c)"
    by blast
  have "subseq (filter (\<lambda>area. sublist (lc stricter) (lc (name area))) areas)
               (filter (\<lambda>area. sublist (lc looser) (lc (name area))) areas)"
    by (rule subseq_filter_mono) (use assms(2) in \<open>blast intro: sublist_order.order_trans\<close>)
  with False strict show ?thesis
    by (simp add: handle_search_filter)
qed


lemma letters_toLowerCase_Willem:
  "letters_toLowerCase (js ''Willem'') = js ''willem''"
  by (simp add: letters_toLowerCase_def js_def lower_unit_def is_cased_def)

lemma letters_toLowerCase_Wi:
  "letters_toLowerCase (js ''Wi'') = js ''wi''"
  by (simp add: letters_toLowerCase_def js_def lower_unit_def is_cased_def)

lemma letters_toLowerCase_Willemstad:
  "letters_toLowerCase (js ''Willemstad'') = js ''willemstad''"
  by (simp add: letters_toLowerCase_def js_def lower_unit_def is_cased_def)

lemma letters_toLowerCase_Bandabou:
  "letters_toLowerCase (js ''Bandabou'') = js ''bandabou''"
  by (simp add: letters_toLowerCase_def js_def lower_unit_def is_cased_def)

lemma letters_toLowerCase_sigma:
  "letters_toLowerCase [0x391, 0x3A3, 0x391] = [0x3B1, 0x3C3, 0x3B1]"
  "letters_toLowerCase [0x391, 0x3A3] = [0x3B1, 0x3C2]"
  by (simp_all add: letters_toLowerCase_def lower_unit_def is_cased_def)

subsection \<open>The order of the loaded list\<close>

lemma set_insert_by: "set (insert_by cmp a bs) = insert a (set bs)"
  by (induction bs) auto

lemma sorted_insert_by:
  assumes total: "\<And>x y. cmp x y \<le> 0 \<or> cmp y x \<le> 0"
    and trans: "\<And>x y z. cmp x y \<le> 0 \<Longrightarrow> cmp y z \<le> 0 \<Longrightarrow> cmp x z \<le> 0"
  shows "sorted_wrt (name_order cmp) bs \<Longrightarrow> sorted_wrt (name_order cmp) (insert_by cmp a bs)"
proof (induction bs)
  case Nil
  then show ?case by simp
next
  case (Cons b bs)
  show ?case
  proof (cases "cmp (name a) (name b) \<le> 0")
    case True
    have "name_order cmp a y" if "y \<in> set bs" for y
    proof -
      from Cons.prems that have "cmp (name b) (name y) \<le> 0"
        by (auto simp: name_order_def)
      with True show ?thesis
        unfolding name_order_def by (rule trans)
    qed
    with True Cons.prems show ?thesis
      by (auto simp: name_order_def)
  next
    case False
    with total [of "name a" "name b"] have "name_order cmp b a"
      by (simp add: name_order_def)
    with False Cons show ?thesis
      by (auto simp: set_insert_by)
  qed
qed

lemma sorted_array_sort:
  assumes "\<And>x y. cmp x y \<le> 0 \<or> cmp y x \<le> 0"
    and "\<And>x y z. cmp x y \<le> 0 \<Longrightarrow> cmp y z \<le> 0 \<Longrightarrow> cmp x z \<le> 0"
  shows "sorted_wrt (name_order cmp) (array_sort cmp areaList)"
  unfolding array_sort_def
  by (induction areaList) (simp_all add: sorted_insert_by [OF assms])

lemma sorted_handle_search:
  "sorted_wrt R areas \<Longrightarrow> sorted_wrt R (handle_search lc searchTerm areas)"
  by (simp add: handle_search_def sorted_wrt_filter)

lemma loadGeoJSON_sorted:
  assumes "\<And>x y. cmp x y \<le> 0 \<or> cmp y x \<le> 0"
    and "\<And>x y z. cmp x y \<le> 0 \<Longrightarrow> cmp y z \<le> 0 \<Longrightarrow> cmp x z \<le> 0"
    and "loadGeoJSON cmp features = Inr (areas, churches)"
  shows "sorted_wrt (name_order cmp) areas"
proof -
  from assms(3) obtain unsorted where "areas = array_sort cmp unsorted"
    by (auto simp: loadGeoJSON_def split: sum.splits)
  then show ?thesis
    by (simp add: sorted_array_sort [OF assms(1,2)])
qed

lemma code_unit_compare_total: "code_unit_compare a b \<le> 0 \<or> code_unit_compare b a \<le> 0"
  by (induction a b rule: code_unit_compare.induct) auto

lemma code_unit_compare_trans:
  "code_unit_compare a b \<le> 0 \<Longrightarrow> code_unit_compare b c \<le> 0 \<Longrightarrow> code_unit_compare a c \<le> 0"
proof (induction a arbitrary: b c)
  case Nil
  then show ?case by (cases c) simp_all
next
  case (Cons x s)
  from Cons.prems(1) obtain y t where b: "b = y # t"
    by (cases b) simp_all
  from Cons.prems(2) b obtain z u where c: "c = z # u"
    by (cases c) simp_all
  from Cons.prems b c Cons.IH [of t u] show ?case
    by (auto split: if_splits)
qed

text \<open>
  C6 (as amended). A query made of white space only (the empty query included) gives the
  whole list unchanged, in its existing order. Any other query gives, in the order of the
  list, exactly the areas whose lower-cased name contains the lower-cased query. The
  result is always a subsequence of the list. The existing order is the one set at load
  time: when the comparator is a total preorder, the loaded list is sorted by name, and
  so is every result of the filter. A query gives a subsequence of what a prefix of it
  gives whenever the lower-cased prefix occurs in the lower-cased query; this is so for
  every prefix when lower-casing maps the code units one by one.
\<close>

theorem handle_search_filters:
  "((\<forall>c \<in> set searchTerm. is_white_space c)
      \<longrightarrow> handle_search lc searchTerm areas = areas)
   \<and> (\<not> (\<forall>c \<in> set searchTerm. is_white_space c)
      \<longrightarrow> handle_search lc searchTerm areas
            = filter (\<lambda>area. sublist (lc searchTerm) (lc (name area))) areas)
   \<and> subseq (handle_search lc searchTerm areas) areas
   \<and> (prefix looser searchTerm \<and> sublist (lc looser) (lc searchTerm)
      \<longrightarrow> subseq (handle_search lc searchTerm areas) (handle_search lc looser areas)
          \<and> set (handle_search lc searchTerm areas) \<subseteq> set (handle_search lc looser areas))
   \<and> (prefix looser searchTerm
      \<longrightarrow> subseq (handle_search (map f) searchTerm areas) (handle_search (map f) looser areas))
   \<and> ((\<forall>x y. cmp x y \<le> 0 \<or> cmp y x \<le> 0)
        \<and> (\<forall>x y z. cmp x y \<le> 0 \<and> cmp y z \<le> 0 \<longrightarrow> cmp x z \<le> 0)
        \<and> loadGeoJSON cmp features = Inr (loaded, churches)
      \<longrightarrow> sorted_wrt (name_order cmp) loaded
          \<and> sorted_wrt (name_order cmp) (handle_search lc searchTerm loaded))"
proof (intro conjI impI)
  assume "\<forall>c \<in> set searchTerm. is_white_space c"
  then show "handle_search lc searchTerm areas = areas"
    by (rule handle_search_blank)
next
  assume "\<not> (\<forall>c \<in> set searchTerm. is_white_space c)"
  then show "handle_search lc searchTerm areas
            = filter (\<lambda>area. sublist (lc searchTerm) (lc (name area))) areas"
    by (rule handle_search_filter)
next
  show "subseq (handle_search lc searchTerm areas) areas"
    by (rule handle_search_subseq)
next
  assume h: "prefix looser searchTerm \<and> sublist (lc looser) (lc searchTerm)"
  then show m: "subseq (handle_search lc searchTerm areas) (handle_search lc looser areas)"
    by (simp add: handle_search_monotone)
  then show "set (handle_search lc searchTerm areas) \<subseteq> set (handle_search lc looser areas)"
    by (rule subseq_set_mono)
next
  assume p: "prefix looser searchTerm"
  then have "prefix (map f looser) (map f searchTerm)"
    by (rule map_mono_prefix)
  then have "sublist (map f looser) (map f searchTerm)"
    by (rule prefix_imp_sublist)
  with p show "subseq (handle_search (map f) searchTerm areas) (handle_search (map f) looser areas)"
    by (rule handle_search_monotone)
next
  assume h: "(\<forall>x y. cmp x y \<le> 0 \<or> cmp y x \<le> 0)
        \<and> (\<forall>x y z. cmp x y \<le> 0 \<and> cmp y z \<le> 0 \<longrightarrow> cmp x z \<le> 0)
        \<and> loadGeoJSON cmp features = Inr (loaded, churches)"
  then have total: "\<And>x y. cmp x y \<le> 0 \<or> cmp y x \<le> 0"
    and trans: "\<And>x y z. cmp x y \<le> 0 \<Longrightarrow> cmp y z \<le> 0 \<Longrightarrow> cmp x z \<le> 0"
    and load: "loadGeoJSON cmp features = Inr (loaded, churches)"
    by blast+
  from total trans load show s: "sorted_wrt (name_order cmp) loaded"
    by (rule loadGeoJSON_sorted)
  then show "sorted_wrt (name_order cmp) (handle_search lc searchTerm loaded)"
    by (rule sorted_handle_search)
qed

theorem handle_search_filters_witness:
  "handle_search letters_toLowerCase (js ''  '') two_areas = two_areas
   \<and> handle_search letters_toLowerCase (js ''Willem'') two_areas
     = filter (\<lambda>area. sublist (js ''willem'') (letters_toLowerCase (name area))) two_areas
   \<and> subseq (handle_search letters_toLowerCase (js ''Willem'') two_areas)
        (handle_search letters_toLowerCase (js ''Wi'') two_areas)
   \<and> subseq (handle_search (map lower_unit) (js ''Willem'') two_areas)
        (handle_search (map lower_unit) (js ''Wi'') two_areas)
   \<and> sorted_wrt (name_order code_unit_compare) two_areas
   \<and> sorted_wrt (name_order code_unit_compare)
        (handle_search letters_toLowerCase (js ''Willem'') two_areas)"
proof -
  have blank: "\<forall>c \<in> set (js ''  ''). is_white_space c"
    by (simp add: js_def is_white_space_def)
  have word: "\<not> (\<forall>c \<in> set (js ''Willem''). is_white_space c)"
    by (simp add: js_def is_white_space_def)
  have pre: "prefix (js ''Wi'') (js ''Willem'')"
    by (simp add: js_def)
  have sub: "sublist (letters_toLowerCase (js ''Wi'')) (letters_toLowerCase (js ''Willem''))"
    unfolding letters_toLowerCase_Wi letters_toLowerCase_Willem
    by (rule prefix_imp_sublist) (simp add: js_def)
  have total: "\<forall>x y. code_unit_compare x y \<le> 0 \<or> code_unit_compare y x \<le> 0"
    by (simp add: code_unit_compare_total)
  have trans: "\<forall>x y z. code_unit_compare x y \<le> 0 \<and> code_unit_compare y z \<le> 0
      \<longrightarrow> code_unit_compare x z \<le> 0"
    by (blast intro: code_unit_compare_trans)
  have load: "loadGeoJSON code_unit_compare
      [willemstad_feature, church_feature, bandabou_feature]
      = Inr (two_areas,
          [\<lparr>church_name = js ''Fortkerk'', church_area = js ''Willemstad'',
            church_photo = [], church_description = [], church_coordinates = (1, 1)\<rparr>])"
    by (simp add: loadGeoJSON_example two_areas_def)
  from handle_search_filters [of "js ''  ''" letters_toLowerCase two_areas] blank
  have 1: "handle_search letters_toLowerCase (js ''  '') two_areas = two_areas"
    by blast
  from handle_search_filters [where searchTerm = "js ''Willem''" and lc = letters_toLowerCase
      and areas = two_areas and looser = "js ''Wi''" and f = lower_unit
      and cmp = code_unit_compare
      and features = "[willemstad_feature, church_feature, bandabou_feature]"
      and loaded = two_areas]
    word pre sub total trans load
  have 2: "handle_search letters_toLowerCase (js ''Willem'') two_areas
     = filter (\<lambda>area. sublist (letters_toLowerCase (js ''Willem''))
         (letters_toLowerCase (name area))) two_areas"
    and 3: "subseq (handle_search letters_toLowerCase (js ''Willem'') two_areas)
        (handle_search letters_toLowerCase (js ''Wi'') two_areas)"
    and 4: "subseq (handle_search (map lower_unit) (js ''Willem'') two_areas)
        (handle_search (map lower_unit) (js ''Wi'') two_areas)"
    and 5: "sorted_wrt (name_order code_unit_compare) two_areas"
    and 6: "sorted_wrt (name_order code_unit_compare)
        (handle_search letters_toLowerCase (js ''Willem'') two_areas)"
    by blast+
  from 1 2 3 4 5 6 show ?thesis
    by (simp add: letters_toLowerCase_Willem)
qed

text \<open>
  C6 as stated fails on its last part. An area is named with the three Greek capitals
  alpha, sigma, alpha. The query equal to the name finds it. The prefix of the query made
  of its first two letters does not: there the sigma is final and lower-cases to U+03C2,
  which does not occur in the lower-cased name.
\<close>

theorem handle_search_final_sigma_counterexample:
  "prefix [0x391, 0x3A3] [0x391, 0x3A3, 0x391 :: 16 word]
   \<and> handle_search letters_toLowerCase [0x391, 0x3A3, 0x391] [sigma_area] = [sigma_area]
   \<and> handle_search letters_toLowerCase [0x391, 0x3A3] [sigma_area] = []"
  by (simp add: handle_search_def trim_def is_white_space_def sigma_area_def
      letters_toLowerCase_sigma)
section \<open>Properties of the labels\<close>

lemma centroid_loop_sums:
  "centroid_loop coordinates i x y =
     (x + (\<Sum>k = i..<length coordinates - 1. fst (coordinates ! k)),
      y + (\<Sum>k = i..<length coordinates - 1. snd (coordinates ! k)))"
proof (induction coordinates i x y rule: centroid_loop.induct)
  case (1 coordinates i x y)
  show ?case
  proof (cases "int i < int (length coordinates) - 1")
    case True
    then have lt: "i < length coordinates - 1"
      by linarith
    with True "1.IH" show ?thesis
      by (simp add: centroid_loop.simps [of coordinates i x y] sum.atLeast_Suc_lessThan
          add.assoc)
  next
    case False
    then have "\<not> i < length coordinates - 1"
      by linarith
    with False show ?thesis
      by (simp add: centroid_loop.simps [of coordinates i x y])
  qed
qed

lemma polygon_label_position_mean:
  assumes "2 \<le> length coordinates"
  shows "polygon_label_position (coordinates # rings) =
     Inr (Num ((\<Sum>k<length coordinates - 1. snd (coordinates ! k))
               / real (length coordinates - 1)),
          Num ((\<Sum>k<length coordinates - 1. fst (coordinates ! k))
               / real (length coordinates - 1)))"
proof -
  from assms have nz: "int (length coordinates) - 1 \<noteq> 0"
    by linarith
  from assms have d: "real (length coordinates) - 1 = real (length coordinates - Suc 0)"
    by (simp add: of_nat_diff)
  show ?thesis
    using nz
    by (simp add: polygon_label_position_def centroid_loop_sums js_divide_def
        atLeast0LessThan d)
qed

lemma polygon_label_position_one:
  "length coordinates = 1 \<Longrightarrow> polygon_label_position (coordinates # rings) = Inr (NaN, NaN)"
  by (simp add: polygon_label_position_def centroid_loop_sums js_divide_def)

lemma polygon_label_position_empty:
  "polygon_label_position ([] # rings) = Inr (Num 0, Num 0)"
  by (simp add: polygon_label_position_def centroid_loop_sums js_divide_def)

text \<open>
  C10 (as amended). For a Polygon feature with a non-empty \<open>NAME\<close> whose first ring has
  \<open>n\<close> coordinates: when \<open>n\<close> is at least 2, a label is created at latitude
  \<open>(y\<^sub>0 + ... + y\<^bsub>n-2\<^esub>) / (n - 1)\<close> and longitude \<open>(x\<^sub>0 + ... + x\<^bsub>n-2\<^esub>) / (n - 1)\<close>, the
  mean of the ring without its last vertex. When \<open>n\<close> is 1 the divisor is zero, the
  computed position is \<open>(NaN, NaN)\<close> and the marker constructor throws. When \<open>n\<close> is 0
  the divisor is \<open>-1\<close> and the label is created at the finite position \<open>(0, 0)\<close>.
\<close>

theorem onEachFeature_label_position:
  assumes "properties f = Some p" and "NAME p = Some nm" and "nm \<noteq> []"
    and "geometry f = Polygon (coordinates # rings)"
  shows "(2 \<le> length coordinates \<longrightarrow>
           onEachFeature f boundsCenter l =
             Inr (l\<lparr>label := Some
                   \<lparr>label_latlng =
                      (Num ((\<Sum>k<length coordinates - 1. snd (coordinates ! k))
                            / real (length coordinates - 1)),
                       Num ((\<Sum>k<length coordinates - 1. fst (coordinates ! k))
                            / real (length coordinates - 1))),
                    label_text = nm, on_map = False, emphasized = False\<rparr>\<rparr>))
     \<and> (length coordinates = 1 \<longrightarrow>
           polygon_label_position (coordinates # rings) = Inr (NaN, NaN)
           \<and> onEachFeature f boundsCenter l = Inl InvalidLatLng)
     \<and> (length coordinates = 0 \<longrightarrow>
           onEachFeature f boundsCenter l =
             Inr (l\<lparr>label := Some
                   \<lparr>label_latlng = (Num 0, Num 0),
                    label_text = nm, on_map = False, emphasized = False\<rparr>\<rparr>))"
proof (intro conjI impI)
  assume "2 \<le> length coordinates"
  then show "onEachFeature f boundsCenter l =
             Inr (l\<lparr>label := Some
                   \<lparr>label_latlng =
                      (Num ((\<Sum>k<length coordinates - 1. snd (coordinates ! k))
                            / real (length coordinates - 1)),
                       Num ((\<Sum>k<length coordinates - 1. fst (coordinates ! k))
                            / real (length coordinates - 1))),
                    label_text = nm, on_map = False, emphasized = False\<rparr>\<rparr>)"
    using assms by (simp add: onEachFeature_def polygon_label_position_mean latLng_def)
next
  assume one: "length coordinates = 1"
  then show "polygon_label_position (coordinates # rings) = Inr (NaN, NaN)"
    by (rule polygon_label_position_one)
  with assms show "onEachFeature f boundsCenter l = Inl InvalidLatLng"
    by (simp add: onEachFeature_def latLng_def)
next
  assume "length coordinates = 0"
  then have "coordinates = []"
    by simp
  with assms show "onEachFeature f boundsCenter l =
             Inr (l\<lparr>label := Some
                   \<lparr>label_latlng = (Num 0, Num 0),
                    label_text = nm, on_map = False, emphasized = False\<rparr>\<rparr>)"
    by (simp add: onEachFeature_def polygon_label_position_empty latLng_def)
qed

theorem onEachFeature_label_position_witness:
  "onEachFeature willemstad_feature (Num 0, Num 0) unlabelled_layer =
     Inr (unlabelled_layer\<lparr>label := Some
           \<lparr>label_latlng = (Num 1, Num 2), label_text = js ''Willemstad'',
            on_map = False, emphasized = False\<rparr>\<rparr>)
   \<and> onEachFeature one_vertex_feature (Num 0, Num 0) unlabelled_layer = Inl InvalidLatLng
   \<and> onEachFeature empty_ring_feature (Num 0, Num 0) unlabelled_layer =
     Inr (unlabelled_layer\<lparr>label := Some
           \<lparr>label_latlng = (Num 0, Num 0), label_text = js ''Klein Curacao'',
            on_map = False, emphasized = False\<rparr>\<rparr>)"
proof -
  have n: "js ''Willemstad'' \<noteq> []" "js ''Klein Curacao'' \<noteq> []"
    by (simp_all add: js_def)
  have sums: "(\<Sum>k<4. snd ([(0, 0), (4, 0), (4, 2), (0, 2), (0, 0)] ! k)) = (4 :: real)"
    "(\<Sum>k<4. fst ([(0, 0), (4, 0), (4, 2), (0, 2), (0, 0)] ! k)) = (8 :: real)"
    by (simp_all add: lessThan_nat_numeral lessThan_Suc)
  from onEachFeature_label_position [where f = willemstad_feature
      and p = "no_properties\<lparr>NAME := Some (js ''Willemstad''), pop := Some 150000\<rparr>"
      and nm = "js ''Willemstad''"
      and coordinates = "[(0, 0), (4, 0), (4, 2), (0, 2), (0, 0)]" and rings = "[]"
      and boundsCenter = "(Num 0, Num 0)" and l = unlabelled_layer] n
  have 1: "onEachFeature willemstad_feature (Num 0, Num 0) unlabelled_layer =
     Inr (unlabelled_layer\<lparr>label := Some
           \<lparr>label_latlng = (Num 1, Num 2), label_text = js ''Willemstad'',
            on_map = False, emphasized = False\<rparr>\<rparr>)"
    by (simp add: willemstad_feature_def sums)
  from onEachFeature_label_position [where f = one_vertex_feature
      and p = "no_properties\<lparr>NAME := Some (js ''Klein Curacao'')\<rparr>"
      and nm = "js ''Klein Curacao''"
      and coordinates = "[(3, 4)]" and rings = "[]"
      and boundsCenter = "(Num 0, Num 0)" and l = unlabelled_layer] n
  have 2: "onEachFeature one_vertex_feature (Num 0, Num 0) unlabelled_layer = Inl InvalidLatLng"
    by (simp add: one_vertex_feature_def)
  from onEachFeature_label_position [where f = empty_ring_feature
      and p = "no_properties\<lparr>NAME := Some (js ''Klein Curacao'')\<rparr>"
      and nm = "js ''Klein Curacao''"
      and coordinates = "[]" and rings = "[]"
      and boundsCenter = "(Num 0, Num 0)" and l = unlabelled_layer] n
  have 3: "onEachFeature empty_ring_feature (Num 0, Num 0) unlabelled_layer =
     Inr (unlabelled_layer\<lparr>label := Some
           \<lparr>label_latlng = (Num 0, Num 0), label_text = js ''Klein Curacao'',
            on_map = False, emphasized = False\<rparr>\<rparr>)"
    by (simp add: empty_ring_feature_def)
  from 1 2 3 show ?thesis
    by (simp only: simp_thms)
qed

text \<open>
  C10 as stated fails for a first ring without any coordinate: there the divisor is \<open>-1\<close>,
  no vertex is summed, and the computed position is \<open>0 / (-1)\<close> twice, a finite
  coordinate.
\<close>

theorem empty_ring_position_counterexample:
  "length ([] :: position list) \<le> 1
   \<and> polygon_label_position [[]] = Inr (Num 0, Num 0)
   \<and> is_finite (Num 0)
   \<and> latLng (Num 0, Num 0) = Inr (Num 0, Num 0)"
  by (simp add: polygon_label_position_empty is_finite_def latLng_def)

section \<open>Properties of the Selection Controller\<close>

lemma restyle_layer_has_properties:
  "has_properties l \<Longrightarrow> \<exists>l'. restyle_layer has_map areaName l = Inr l'"
  by (auto simp: restyle_layer_def has_properties_def split: option.splits)

lemma restyle_layer_selected:
  assumes "restyle_layer has_map areaName l = Inr l'" and "layer_NAME l = Some areaName"
  shows "weight (options l') = 3 \<and> color (options l') = ''#1d4ed8''
     \<and> fillOpacity (options l') = 0.9
     \<and> (has_map \<longrightarrow> label l \<noteq> None \<longrightarrow> label_shown l')"
  using assms
  by (auto simp: restyle_layer_def layer_NAME_def label_shown_def
      split: option.splits if_splits)

lemma restyle_layer_other:
  assumes "restyle_layer has_map areaName l = Inr l'" and "layer_NAME l \<noteq> Some areaName"
  shows "weight (options l') = 1 \<and> color (options l') = ''#ffffff''
     \<and> fillOpacity (options l') = 0.7
     \<and> (has_map \<longrightarrow> \<not> label_shown l')"
  using assms
  by (auto simp: restyle_layer_def layer_NAME_def label_shown_def
      split: option.splits if_splits)

lemma restyle_layer_keeps:
  assumes "restyle_layer has_map areaName l = Inr l'"
  shows "layer_feature l' = layer_feature l \<and> popup l' = popup l
     \<and> (label l' = None \<longleftrightarrow> label l = None)"
  using assms
  by (auto simp: restyle_layer_def split: option.splits if_splits)

lemma eachLayer_restyle_length:
  "length (fst (eachLayer_restyle has_map areaName ls)) = length ls"
  by (induction ls) (auto split: sum.splits prod.splits)

lemma eachLayer_restyle_returns:
  "\<forall>l \<in> set ls. has_properties l \<Longrightarrow> snd (eachLayer_restyle has_map areaName ls) = None"
proof (induction ls)
  case Nil
  then show ?case by simp
next
  case (Cons l ls)
  then obtain l' where "restyle_layer has_map areaName l = Inr l'"
    using restyle_layer_has_properties [of l has_map areaName] by auto
  with Cons show ?case
    by (auto split: prod.splits)
qed

lemma eachLayer_restyle_nth:
  "eachLayer_restyle has_map areaName ls = (ls', None) \<Longrightarrow> k < length ls \<Longrightarrow>
   restyle_layer has_map areaName (ls ! k) = Inr (ls' ! k)"
proof (induction ls arbitrary: ls' k)
  case Nil
  then show ?case by simp
next
  case (Cons l ls)
  from Cons.prems(1) obtain l' rest'
    where l': "restyle_layer has_map areaName l = Inr l'"
      and rest: "eachLayer_restyle has_map areaName ls = (rest', None)"
      and ls': "ls' = l' # rest'"
    by (auto split: sum.splits prod.splits)
  show ?case
  proof (cases k)
    case 0
    with l' ls' show ?thesis by simp
  next
    case (Suc n)
    with Cons.prems(2) have "n < length ls" by simp
    with Cons.IH [OF rest] have "restyle_layer has_map areaName (ls ! n) = Inr (rest' ! n)" .
    with Suc ls' show ?thesis by simp
  qed
qed

lemma eachLayer_restyle_popups:
  "map popup (fst (eachLayer_restyle has_map areaName ls)) = map popup ls"
proof (induction ls)
  case Nil
  then show ?case by simp
next
  case (Cons l ls)
  then show ?case
    by (auto split: sum.splits prod.splits dest: restyle_layer_keeps)
qed

text \<open>Binding the popup leaves the selection, the names, the labels and the presence of
  the map and of the collection as they are; so does the first part of \<open>selectArea\<close>.\<close>

lemma bind_and_open_popup_keeps:
  "selectedArea (bind_and_open_popup cpc awaited s) = selectedArea s
   \<and> churchMarkersRef (bind_and_open_popup cpc awaited s) = churchMarkersRef s
   \<and> (mapInstanceRef (bind_and_open_popup cpc awaited s) = None \<longleftrightarrow> mapInstanceRef s = None)"
  by (auto simp: bind_and_open_popup_def split: option.splits prod.splits)

lemma bind_and_open_popup_layers:
  assumes "geoJsonLayerRef s = Some ls"
  shows "\<exists>ls1. geoJsonLayerRef (bind_and_open_popup cpc awaited s) = Some ls1
     \<and> length ls1 = length ls
     \<and> (\<forall>k<length ls. layer_NAME (ls1 ! k) = layer_NAME (ls ! k)
            \<and> label (ls1 ! k) = label (ls ! k)
            \<and> has_properties (ls1 ! k) = has_properties (ls ! k))"
proof (cases awaited)
  case None
  with assms show ?thesis
    by (simp add: bind_and_open_popup_def)
next
  case (Some ip)
  obtain i props where ip: "ip = (i, props)"
    by (cases ip)
  with Some assms have r: "geoJsonLayerRef (bind_and_open_popup cpc awaited s)
      = Some (ls[i := (ls ! i)\<lparr>popup := Some (cpc props)\<rparr>])"
    by (simp add: bind_and_open_popup_def)
  have "layer_NAME (ls[i := (ls ! i)\<lparr>popup := Some (cpc props)\<rparr>] ! k) = layer_NAME (ls ! k)
      \<and> label (ls[i := (ls ! i)\<lparr>popup := Some (cpc props)\<rparr>] ! k) = label (ls ! k)
      \<and> has_properties (ls[i := (ls ! i)\<lparr>popup := Some (cpc props)\<rparr>] ! k)
          = has_properties (ls ! k)" if "k < length ls" for k
    using that by (cases "i = k") (simp_all add: layer_NAME_def has_properties_def)
  with r show ?thesis
    by simp
qed

lemma select_start_no_layer:
  "select_start areaName None s = (s\<lparr>selectedArea := Some areaName\<rparr>, None)"
  by (simp add: select_start_def)

lemma select_start_keeps:
  "selectedArea (fst (select_start areaName layer s)) = Some areaName
   \<and> geoJsonLayerRef (fst (select_start areaName layer s)) = geoJsonLayerRef s
   \<and> churchMarkersRef (fst (select_start areaName layer s)) = churchMarkersRef s
   \<and> (mapInstanceRef (fst (select_start areaName layer s)) = None \<longleftrightarrow> mapInstanceRef s = None)"
  by (auto simp: select_start_def Let_def split: option.splits)

text \<open>
  On a feature with a non-empty \<open>NAME\<close>, the three attributes that the restyling pass
  sets are those the style function computes for the new selection.
\<close>

lemma restyle_layer_agrees_with_style:
  assumes "restyle_layer has_map areaName l = Inr l'"
    and "layer_feature l = Some f" and "properties f = Some p"
    and "NAME p = Some nm" and "nm \<noteq> []"
  shows "\<exists>st. style (Some areaName) (Some f) = Some st
     \<and> weight (options l') = weight st \<and> color (options l') = color st
     \<and> fillOpacity (options l') = fillOpacity st"
  using assms
  by (auto simp: restyle_layer_def style_def or_else_def Let_def split: if_splits)

lemma select_finish_restyles:
  assumes ls: "geoJsonLayerRef s = Some ls"
    and props: "\<forall>l \<in> set ls. has_properties l"
  shows "\<exists>s' ls'. select_finish cpc areaName awaited s = (s', None)
     \<and> selectedArea s' = selectedArea s
     \<and> geoJsonLayerRef s' = Some ls' \<and> length ls' = length ls
     \<and> (\<forall>k<length ls.
           (layer_NAME (ls ! k) = Some areaName \<longrightarrow>
              weight (options (ls' ! k)) = 3 \<and> color (options (ls' ! k)) = ''#1d4ed8''
              \<and> fillOpacity (options (ls' ! k)) = 0.9
              \<and> (mapInstanceRef s \<noteq> None \<longrightarrow> label (ls ! k) \<noteq> None \<longrightarrow> label_shown (ls' ! k)))
         \<and> (layer_NAME (ls ! k) \<noteq> Some areaName \<longrightarrow>
              weight (options (ls' ! k)) = 1 \<and> color (options (ls' ! k)) = ''#ffffff''
              \<and> fillOpacity (options (ls' ! k)) = 0.7
              \<and> (mapInstanceRef s \<noteq> None \<longrightarrow> \<not> label_shown (ls' ! k))))"
proof -
  define s1 where "s1 = bind_and_open_popup cpc awaited s"
  define has_map where "has_map = (mapInstanceRef s1 \<noteq> None)"
  from bind_and_open_popup_layers [OF ls, of cpc awaited] obtain ls1
    where ls1: "geoJsonLayerRef s1 = Some ls1" and len1: "length ls1 = length ls"
      and same: "\<forall>k<length ls. layer_NAME (ls1 ! k) = layer_NAME (ls ! k)
            \<and> label (ls1 ! k) = label (ls ! k)
            \<and> has_properties (ls1 ! k) = has_properties (ls ! k)"
    unfolding s1_def by blast
  have hm: "has_map \<longleftrightarrow> mapInstanceRef s \<noteq> None"
    using bind_and_open_popup_keeps [of cpc awaited s] by (simp add: has_map_def s1_def)
  have sel1: "selectedArea s1 = selectedArea s"
    using bind_and_open_popup_keeps [of cpc awaited s] by (simp add: s1_def)
  have "\<forall>l \<in> set ls1. has_properties l"
  proof
    fix l
    assume "l \<in> set ls1"
    then obtain k where k: "k < length ls1" "l = ls1 ! k"
      by (auto simp: in_set_conv_nth)
    with len1 same have "has_properties l = has_properties (ls ! k)"
      by simp
    moreover from k len1 have "ls ! k \<in> set ls"
      by simp
    ultimately show "has_properties l"
      using props by blast
  qed
  then have "snd (eachLayer_restyle has_map areaName ls1) = None"
    by (rule eachLayer_restyle_returns)
  then obtain ls' where run: "eachLayer_restyle has_map areaName ls1 = (ls', None)"
    by (cases "eachLayer_restyle has_map areaName ls1") simp
  have len': "length ls' = length ls"
    using eachLayer_restyle_length [of has_map areaName ls1] run len1 by simp
  have result: "select_finish cpc areaName awaited s = (s1\<lparr>geoJsonLayerRef := Some ls'\<rparr>, None)"
    using ls1 run
    by (simp add: select_finish_def restyle_pass_def s1_def [symmetric]
        has_map_def [symmetric] del: not_None_eq)
  have layers: "(\<forall>k<length ls.
           (layer_NAME (ls ! k) = Some areaName \<longrightarrow>
              weight (options (ls' ! k)) = 3 \<and> color (options (ls' ! k)) = ''#1d4ed8''
              \<and> fillOpacity (options (ls' ! k)) = 0.9
              \<and> (mapInstanceRef s \<noteq> None \<longrightarrow> label (ls ! k) \<noteq> None \<longrightarrow> label_shown (ls' ! k)))
         \<and> (layer_NAME (ls ! k) \<noteq> Some areaName \<longrightarrow>
              weight (options (ls' ! k)) = 1 \<and> color (options (ls' ! k)) = ''#ffffff''
              \<and> fillOpacity (options (ls' ! k)) = 0.7
              \<and> (mapInstanceRef s \<noteq> None \<longrightarrow> \<not> label_shown (ls' ! k))))"
  proof (intro allI impI)
    fix k
    assume k: "k < length ls"
    with len1 have "k < length ls1"
      by simp
    with run have r: "restyle_layer has_map areaName (ls1 ! k) = Inr (ls' ! k)"
      by (rule eachLayer_restyle_nth)
    from same k have nm: "layer_NAME (ls1 ! k) = layer_NAME (ls ! k)"
      and lb: "label (ls1 ! k) = label (ls ! k)"
      by simp_all
    show "(layer_NAME (ls ! k) = Some areaName \<longrightarrow>
              weight (options (ls' ! k)) = 3 \<and> color (options (ls' ! k)) = ''#1d4ed8''
              \<and> fillOpacity (options (ls' ! k)) = 0.9
              \<and> (mapInstanceRef s \<noteq> None \<longrightarrow> label (ls ! k) \<noteq> None \<longrightarrow> label_shown (ls' ! k)))
         \<and> (layer_NAME (ls ! k) \<noteq> Some areaName \<longrightarrow>
              weight (options (ls' ! k)) = 1 \<and> color (options (ls' ! k)) = ''#ffffff''
              \<and> fillOpacity (options (ls' ! k)) = 0.7
              \<and> (mapInstanceRef s \<noteq> None \<longrightarrow> \<not> label_shown (ls' ! k)))"
      using restyle_layer_selected [OF r] restyle_layer_other [OF r] nm lb hm
      by simp
  qed
  from result sel1 len' layers show ?thesis
    by simp
qed

lemma selectArea_restyles:
  assumes ls: "geoJsonLayerRef s = Some ls"
    and props: "\<forall>l \<in> set ls. has_properties l"
  shows "\<exists>s' ls'. selectArea cpc areaName layer s = (s', None)
     \<and> selectedArea s' = Some areaName
     \<and> geoJsonLayerRef s' = Some ls' \<and> length ls' = length ls
     \<and> (\<forall>k<length ls.
           (layer_NAME (ls ! k) = Some areaName \<longrightarrow>
              weight (options (ls' ! k)) = 3 \<and> color (options (ls' ! k)) = ''#1d4ed8''
              \<and> fillOpacity (options (ls' ! k)) = 0.9
              \<and> (mapInstanceRef s \<noteq> None \<longrightarrow> label (ls ! k) \<noteq> None \<longrightarrow> label_shown (ls' ! k)))
         \<and> (layer_NAME (ls ! k) \<noteq> Some areaName \<longrightarrow>
              weight (options (ls' ! k)) = 1 \<and> color (options (ls' ! k)) = ''#ffffff''
              \<and> fillOpacity (options (ls' ! k)) = 0.7
              \<and> (mapInstanceRef s \<noteq> None \<longrightarrow> \<not> label_shown (ls' ! k))))"
proof -
  obtain s1 awaited where start: "select_start areaName layer s = (s1, awaited)"
    by (cases "select_start areaName layer s")
  with select_start_keeps [of areaName layer s]
  have sel: "selectedArea s1 = Some areaName" and ls1: "geoJsonLayerRef s1 = Some ls"
    and m: "mapInstanceRef s1 = None \<longleftrightarrow> mapInstanceRef s = None"
    by (simp_all add: ls)
  from select_finish_restyles [OF ls1 props, of cpc areaName awaited] sel m start
  show ?thesis
    by (simp add: selectArea_def)
qed



lemma willemstad_selected_layers:
  "geoJsonLayerRef willemstad_selected = Some [willemstad_layer, bandabou_layer]"
  "mapInstanceRef willemstad_selected
     = Some \<lparr>view = InitialView, open_popup = None, markers = []\<rparr>"
  "selectedArea willemstad_selected = Some (js ''Willemstad'')"
  "\<forall>l \<in> set [willemstad_layer, bandabou_layer]. has_properties l"
  "layer_NAME willemstad_layer = Some (js ''Willemstad'')"
  "layer_NAME bandabou_layer = Some (js ''Bandabou'')"
  "label bandabou_layer \<noteq> None"
  by (simp_all add: willemstad_selected_def willemstad_layer_def bandabou_layer_def
      has_properties_def layer_NAME_def willemstad_feature_def bandabou_feature_def
      no_properties_def)



text \<open>
  Overlapping calls. Willemstad is selected. A call for Willemstad on its layer starts and
  awaits its popup content; a call for Bandabou on its layer runs to its end; then the
  first call resumes and restyles for its own name. At the end the selected name is
  Bandabou, and the layer with the Selected attributes and the label is Willemstad.
\<close>

lemma overlapping_calls_restyle_earlier_selection:
  "snd overlapping_calls = None
   \<and> selectedArea (fst overlapping_calls) = Some (js ''Bandabou'')
   \<and> weight (options (the (geoJsonLayerRef (fst overlapping_calls)) ! 0)) = 3
   \<and> label_shown (the (geoJsonLayerRef (fst overlapping_calls)) ! 0)
   \<and> weight (options (the (geoJsonLayerRef (fst overlapping_calls)) ! 1)) = 1
   \<and> \<not> label_shown (the (geoJsonLayerRef (fst overlapping_calls)) ! 1)"
proof -
  have w: "js ''Willemstad'' \<noteq> js ''Bandabou''" "js ''Bandabou'' \<noteq> js ''Willemstad''"
    by (simp_all add: js_def)
  show ?thesis
    using w
    by (simp add: overlapping_calls_def selectArea_def select_start_def select_finish_def
        bind_and_open_popup_def restyle_pass_def restyle_layer_def willemstad_selected_def
        willemstad_layer_def bandabou_layer_def willemstad_feature_def bandabou_feature_def
        no_properties_def label_shown_def Let_def)
qed

text \<open>
  C7. When \<open>selectArea\<close> is called without a layer, the map is left as it is (no view
  change, no popup opened) and no popup is bound to any layer; the name becomes the
  selected area, so the list entry with that name is the highlighted one; and the
  restyling pass runs over the collection as it does with a layer: when no feature
  lacks its properties the call returns normally, the layers with that name get the
  Selected attributes and all others the default ones, with their labels taken off the
  map.
\<close>

theorem selectArea_without_layer:
  "selectedArea (fst (selectArea cpc areaName None s)) = Some areaName
   \<and> mapInstanceRef (fst (selectArea cpc areaName None s)) = mapInstanceRef s
   \<and> map_option (map popup) (geoJsonLayerRef (fst (selectArea cpc areaName None s)))
       = map_option (map popup) (geoJsonLayerRef s)
   \<and> (list_item_selected (fst (selectArea cpc areaName None s)) area
        \<longleftrightarrow> name area = areaName)
   \<and> (geoJsonLayerRef s = Some ls \<longrightarrow>
        geoJsonLayerRef (fst (selectArea cpc areaName None s))
          = Some (fst (eachLayer_restyle (mapInstanceRef s \<noteq> None) areaName ls))
        \<and> snd (selectArea cpc areaName None s)
          = snd (eachLayer_restyle (mapInstanceRef s \<noteq> None) areaName ls))
   \<and> (geoJsonLayerRef s = Some ls \<and> (\<forall>l \<in> set ls. has_properties l) \<and> k < length ls \<longrightarrow>
        snd (selectArea cpc areaName None s) = None
        \<and> (layer_NAME (ls ! k) = Some areaName \<longrightarrow>
             weight (options (the (geoJsonLayerRef (fst (selectArea cpc areaName None s))) ! k)) = 3
             \<and> fillOpacity (options (the (geoJsonLayerRef
                  (fst (selectArea cpc areaName None s))) ! k)) = 0.9)
        \<and> (layer_NAME (ls ! k) \<noteq> Some areaName \<longrightarrow>
             weight (options (the (geoJsonLayerRef (fst (selectArea cpc areaName None s))) ! k)) = 1
             \<and> fillOpacity (options (the (geoJsonLayerRef
                  (fst (selectArea cpc areaName None s))) ! k)) = 0.7
             \<and> (mapInstanceRef s \<noteq> None \<longrightarrow>
                  \<not> label_shown (the (geoJsonLayerRef
                      (fst (selectArea cpc areaName None s))) ! k))))"
proof -
  have unfold: "selectArea cpc areaName None s =
     (case geoJsonLayerRef s of
        None \<Rightarrow> (s\<lparr>selectedArea := Some areaName\<rparr>, None)
      | Some ls \<Rightarrow>
          (s\<lparr>selectedArea := Some areaName,
             geoJsonLayerRef :=
               Some (fst (eachLayer_restyle (mapInstanceRef s \<noteq> None) areaName ls))\<rparr>,
           snd (eachLayer_restyle (mapInstanceRef s \<noteq> None) areaName ls)))"
    by (simp add: selectArea_def select_start_no_layer select_finish_def
        bind_and_open_popup_def restyle_pass_def split: option.splits prod.splits
        del: not_None_eq)
  have 1: "selectedArea (fst (selectArea cpc areaName None s)) = Some areaName"
    by (simp add: unfold split: option.splits)
  have 2: "mapInstanceRef (fst (selectArea cpc areaName None s)) = mapInstanceRef s"
    by (simp add: unfold split: option.splits)
  have 3: "map_option (map popup) (geoJsonLayerRef (fst (selectArea cpc areaName None s)))
       = map_option (map popup) (geoJsonLayerRef s)"
    by (simp add: unfold eachLayer_restyle_popups split: option.splits del: not_None_eq)
  have 4: "list_item_selected (fst (selectArea cpc areaName None s)) area
        \<longleftrightarrow> name area = areaName"
    by (auto simp: list_item_selected_def 1)
  have 5: "geoJsonLayerRef s = Some ls \<longrightarrow>
        geoJsonLayerRef (fst (selectArea cpc areaName None s))
          = Some (fst (eachLayer_restyle (mapInstanceRef s \<noteq> None) areaName ls))
        \<and> snd (selectArea cpc areaName None s)
          = snd (eachLayer_restyle (mapInstanceRef s \<noteq> None) areaName ls)"
    by (simp add: unfold del: not_None_eq)
  have 6: "geoJsonLayerRef s = Some ls \<and> (\<forall>l \<in> set ls. has_properties l) \<and> k < length ls \<longrightarrow>
        snd (selectArea cpc areaName None s) = None
        \<and> (layer_NAME (ls ! k) = Some areaName \<longrightarrow>
             weight (options (the (geoJsonLayerRef (fst (selectArea cpc areaName None s))) ! k)) = 3
             \<and> fillOpacity (options (the (geoJsonLayerRef
                  (fst (selectArea cpc areaName None s))) ! k)) = 0.9)
        \<and> (layer_NAME (ls ! k) \<noteq> Some areaName \<longrightarrow>
             weight (options (the (geoJsonLayerRef (fst (selectArea cpc areaName None s))) ! k)) = 1
             \<and> fillOpacity (options (the (geoJsonLayerRef
                  (fst (selectArea cpc areaName None s))) ! k)) = 0.7
             \<and> (mapInstanceRef s \<noteq> None \<longrightarrow>
                  \<not> label_shown (the (geoJsonLayerRef
                      (fst (selectArea cpc areaName None s))) ! k)))"
  proof (intro impI)
    assume h: "geoJsonLayerRef s = Some ls \<and> (\<forall>l \<in> set ls. has_properties l) \<and> k < length ls"
    then have ls: "geoJsonLayerRef s = Some ls" and props: "\<forall>l \<in> set ls. has_properties l"
      and k: "k < length ls"
      by simp_all
    from selectArea_restyles [OF ls props, of cpc areaName None] obtain s' ls'
      where r: "selectArea cpc areaName None s = (s', None)"
        and l': "geoJsonLayerRef s' = Some ls'"
        and each: "\<forall>k<length ls.
           (layer_NAME (ls ! k) = Some areaName \<longrightarrow>
              weight (options (ls' ! k)) = 3 \<and> color (options (ls' ! k)) = ''#1d4ed8''
              \<and> fillOpacity (options (ls' ! k)) = 0.9
              \<and> (mapInstanceRef s \<noteq> None \<longrightarrow> label (ls ! k) \<noteq> None \<longrightarrow> label_shown (ls' ! k)))
         \<and> (layer_NAME (ls ! k) \<noteq> Some areaName \<longrightarrow>
              weight (options (ls' ! k)) = 1 \<and> color (options (ls' ! k)) = ''#ffffff''
              \<and> fillOpacity (options (ls' ! k)) = 0.7
              \<and> (mapInstanceRef s \<noteq> None \<longrightarrow> \<not> label_shown (ls' ! k)))"
      by blast
    from each k have "(layer_NAME (ls ! k) = Some areaName \<longrightarrow>
              weight (options (ls' ! k)) = 3 \<and> fillOpacity (options (ls' ! k)) = 0.9)
         \<and> (layer_NAME (ls ! k) \<noteq> Some areaName \<longrightarrow>
              weight (options (ls' ! k)) = 1 \<and> fillOpacity (options (ls' ! k)) = 0.7
              \<and> (mapInstanceRef s \<noteq> None \<longrightarrow> \<not> label_shown (ls' ! k)))"
      by blast
    with r l' show "snd (selectArea cpc areaName None s) = None
        \<and> (layer_NAME (ls ! k) = Some areaName \<longrightarrow>
             weight (options (the (geoJsonLayerRef (fst (selectArea cpc areaName None s))) ! k)) = 3
             \<and> fillOpacity (options (the (geoJsonLayerRef
                  (fst (selectArea cpc areaName None s))) ! k)) = 0.9)
        \<and> (layer_NAME (ls ! k) \<noteq> Some areaName \<longrightarrow>
             weight (options (the (geoJsonLayerRef (fst (selectArea cpc areaName None s))) ! k)) = 1
             \<and> fillOpacity (options (the (geoJsonLayerRef
                  (fst (selectArea cpc areaName None s))) ! k)) = 0.7
             \<and> (mapInstanceRef s \<noteq> None \<longrightarrow>
                  \<not> label_shown (the (geoJsonLayerRef
                      (fst (selectArea cpc areaName None s))) ! k)))"
      by (simp del: not_None_eq)
  qed
  from 1 2 3 4 5 6 show ?thesis
    by (simp only: simp_thms)
qed

theorem selectArea_without_layer_witness:
  "selectedArea (fst (selectArea popup_text (js ''Punda'') None willemstad_selected))
     = Some (js ''Punda'')
   \<and> mapInstanceRef (fst (selectArea popup_text (js ''Punda'') None willemstad_selected))
     = Some \<lparr>view = InitialView, open_popup = None, markers = []\<rparr>
   \<and> snd (selectArea popup_text (js ''Punda'') None willemstad_selected) = None
   \<and> weight (options (the (geoJsonLayerRef
        (fst (selectArea popup_text (js ''Punda'') None willemstad_selected))) ! 0)) = 1
   \<and> \<not> label_shown (the (geoJsonLayerRef
        (fst (selectArea popup_text (js ''Punda'') None willemstad_selected))) ! 0)
   \<and> weight (options (the (geoJsonLayerRef
        (fst (selectArea popup_text (js ''Bandabou'') None willemstad_selected))) ! 1)) = 3"
proof -
  have ne: "layer_NAME ([willemstad_layer, bandabou_layer] ! 0) \<noteq> Some (js ''Punda'')"
    by (simp add: willemstad_selected_layers js_def)
  have eq: "layer_NAME ([willemstad_layer, bandabou_layer] ! 1) = Some (js ''Bandabou'')"
    by (simp add: willemstad_selected_layers)
  have k: "(0 :: nat) < length [willemstad_layer, bandabou_layer]"
    "(1 :: nat) < length [willemstad_layer, bandabou_layer]"
    by simp_all
  have m: "mapInstanceRef willemstad_selected \<noteq> None"
    by (simp add: willemstad_selected_layers)
  note t = selectArea_without_layer [where s = willemstad_selected
      and areaName = "js ''Punda''" and cpc = popup_text
      and ls = "[willemstad_layer, bandabou_layer]" and k = 0]
  note b = selectArea_without_layer [where s = willemstad_selected
      and areaName = "js ''Bandabou''" and cpc = popup_text
      and ls = "[willemstad_layer, bandabou_layer]" and k = 1]
  from t have 1:
    "selectedArea (fst (selectArea popup_text (js ''Punda'') None willemstad_selected))
       = Some (js ''Punda'')"
    by (rule conjunct1)
  from t have 2:
    "mapInstanceRef (fst (selectArea popup_text (js ''Punda'') None willemstad_selected))
       = mapInstanceRef willemstad_selected"
    by blast
  from t willemstad_selected_layers(1,4) k ne m
  have 3: "snd (selectArea popup_text (js ''Punda'') None willemstad_selected) = None
     \<and> weight (options (the (geoJsonLayerRef
        (fst (selectArea popup_text (js ''Punda'') None willemstad_selected))) ! 0)) = 1
     \<and> \<not> label_shown (the (geoJsonLayerRef
        (fst (selectArea popup_text (js ''Punda'') None willemstad_selected))) ! 0)"
    by blast
  from b willemstad_selected_layers(1,4) k eq
  have 4: "weight (options (the (geoJsonLayerRef
        (fst (selectArea popup_text (js ''Bandabou'') None willemstad_selected))) ! 1)) = 3"
    by blast
  from 1 2 3 4 show ?thesis
    by (simp add: willemstad_selected_layers)
qed

section \<open>Properties of the Point-of-Interest Overlay\<close>

lemma mset_fold_remove1: "mset (fold remove1 xs ys) = mset ys - mset xs"
proof (induction xs arbitrary: ys)
  case Nil
  then show ?case by simp
next
  case (Cons x xs)
  have "mset (fold remove1 xs (remove1 x ys)) = mset (remove1 x ys) - mset xs"
    by (rule Cons.IH)
  then show ?case
    by (simp add: multiset_eq_iff)
qed

lemma fold_remove1_all: "mset ys = mset xs \<Longrightarrow> fold remove1 xs ys = []"
proof -
  assume "mset ys = mset xs"
  then have "mset (fold remove1 xs ys) = {#}"
    by (simp add: mset_fold_remove1)
  then show ?thesis
    by simp
qed

lemma clearChurchMarkers_tracked:
  assumes "mapInstanceRef s = Some m" and "mset (markers m) = mset (churchMarkersRef s)"
  shows "clearChurchMarkers s
     = s\<lparr>mapInstanceRef := Some (m\<lparr>markers := []\<rparr>), churchMarkersRef := []\<rparr>"
  using assms by (simp add: clearChurchMarkers_def fold_remove1_all)

lemma fold_add_church_marker:
  "mapInstanceRef s = Some m \<Longrightarrow>
   fold add_church_marker churches s
     = s\<lparr>mapInstanceRef := Some (m\<lparr>markers := markers m @ map church_marker churches\<rparr>),
         churchMarkersRef := churchMarkersRef s @ map church_marker churches\<rparr>"
proof (induction churches arbitrary: s m)
  case Nil
  then show ?case by simp
next
  case (Cons church churches)
  let ?s1 = "add_church_marker church s"
  let ?m1 = "m\<lparr>markers := markers m @ [church_marker church]\<rparr>"
  from Cons.prems have s1: "?s1 = s\<lparr>mapInstanceRef := Some ?m1,
      churchMarkersRef := churchMarkersRef s @ [church_marker church]\<rparr>"
    by (simp add: add_church_marker_def Let_def)
  then have "mapInstanceRef ?s1 = Some ?m1"
    by simp
  then have "fold add_church_marker churches ?s1
     = ?s1\<lparr>mapInstanceRef := Some (?m1\<lparr>markers := markers ?m1 @ map church_marker churches\<rparr>),
           churchMarkersRef := churchMarkersRef ?s1 @ map church_marker churches\<rparr>"
    by (rule Cons.IH)
  then show ?case
    by (simp add: s1)
qed

lemma showChurchesForArea_tracked:
  assumes "mapInstanceRef s = Some m" and "mset (markers m) = mset (churchMarkersRef s)"
  shows "showChurchesForArea up churchesData areaName s
     = s\<lparr>mapInstanceRef := Some (m\<lparr>markers := map church_marker
             (filter (\<lambda>church. up (church_area church) = up areaName) churchesData)\<rparr>),
         churchMarkersRef := map church_marker
             (filter (\<lambda>church. up (church_area church) = up areaName) churchesData)\<rparr>"
proof -
  let ?c = "s\<lparr>mapInstanceRef := Some (m\<lparr>markers := []\<rparr>), churchMarkersRef := []\<rparr>"
  have c: "clearChurchMarkers s = ?c"
    using assms by (rule clearChurchMarkers_tracked)
  have "mapInstanceRef ?c = Some (m\<lparr>markers := []\<rparr>)"
    by simp
  from fold_add_church_marker [OF this] c assms(1) show ?thesis
    by (simp add: showChurchesForArea_def)
qed

lemma clearChurchMarkers_idempotent:
  "clearChurchMarkers (clearChurchMarkers s) = clearChurchMarkers s"
  by (cases "mapInstanceRef s") (simp_all add: clearChurchMarkers_def)

lemma marker_church_church_marker: "map (marker_church \<circ> church_marker) churches = churches"
  by (induction churches) (simp_all add: church_marker_def)

text \<open>
  C8. The map exists and the church markers on it are the tracked ones. Then
  \<open>showChurchesForArea\<close> gives the same state as clearing first and showing then; after it
  the markers on the map, which are also the tracked ones, are one marker per church whose
  upper-cased area equals the upper-cased name, in the order of the data, and nothing
  else; showing the same area again changes nothing. \<open>clearChurchMarkers\<close> leaves no
  marker on the map and none tracked, clearing again changes nothing, and with no marker
  shown it changes nothing at all.
\<close>

theorem showChurchesForArea_exact:
  assumes "mapInstanceRef s = Some m" and "mset (markers m) = mset (churchMarkersRef s)"
  shows "showChurchesForArea up churchesData areaName s
       = showChurchesForArea up churchesData areaName (clearChurchMarkers s)
     \<and> map marker_church (displayed_markers (showChurchesForArea up churchesData areaName s))
       = filter (\<lambda>church. up (church_area church) = up areaName) churchesData
     \<and> churchMarkersRef (showChurchesForArea up churchesData areaName s)
       = displayed_markers (showChurchesForArea up churchesData areaName s)
     \<and> showChurchesForArea up churchesData areaName
         (showChurchesForArea up churchesData areaName s)
       = showChurchesForArea up churchesData areaName s
     \<and> displayed_markers (clearChurchMarkers s) = []
     \<and> churchMarkersRef (clearChurchMarkers s) = []
     \<and> clearChurchMarkers (clearChurchMarkers s) = clearChurchMarkers s
     \<and> (markers m = [] \<longrightarrow> clearChurchMarkers s = s)"
proof -
  let ?new = "map church_marker
      (filter (\<lambda>church. up (church_area church) = up areaName) churchesData)"
  let ?shown = "s\<lparr>mapInstanceRef := Some (m\<lparr>markers := ?new\<rparr>), churchMarkersRef := ?new\<rparr>"
  let ?cleared = "s\<lparr>mapInstanceRef := Some (m\<lparr>markers := []\<rparr>), churchMarkersRef := []\<rparr>"
  have shown: "showChurchesForArea up churchesData areaName s = ?shown"
    using assms by (rule showChurchesForArea_tracked)
  have cleared: "clearChurchMarkers s = ?cleared"
    using assms by (rule clearChurchMarkers_tracked)
  have "showChurchesForArea up churchesData areaName ?cleared
      = ?cleared\<lparr>mapInstanceRef := Some (m\<lparr>markers := []\<rparr>\<lparr>markers := ?new\<rparr>),
                churchMarkersRef := ?new\<rparr>"
    by (rule showChurchesForArea_tracked) simp_all
  then have 1: "showChurchesForArea up churchesData areaName s
       = showChurchesForArea up churchesData areaName (clearChurchMarkers s)"
    by (simp add: shown cleared)
  have 2: "map marker_church
        (displayed_markers (showChurchesForArea up churchesData areaName s))
       = filter (\<lambda>church. up (church_area church) = up areaName) churchesData"
    by (simp add: shown displayed_markers_def marker_church_church_marker)
  have 3: "churchMarkersRef (showChurchesForArea up churchesData areaName s)
       = displayed_markers (showChurchesForArea up churchesData areaName s)"
    by (simp add: shown displayed_markers_def)
  have "showChurchesForArea up churchesData areaName ?shown
      = ?shown\<lparr>mapInstanceRef := Some (m\<lparr>markers := ?new\<rparr>\<lparr>markers := ?new\<rparr>),
              churchMarkersRef := ?new\<rparr>"
    by (rule showChurchesForArea_tracked) simp_all
  then have 4: "showChurchesForArea up churchesData areaName
         (showChurchesForArea up churchesData areaName s)
       = showChurchesForArea up churchesData areaName s"
    by (simp add: shown)
  have 5: "displayed_markers (clearChurchMarkers s) = []"
    and 6: "churchMarkersRef (clearChurchMarkers s) = []"
    by (simp_all add: cleared displayed_markers_def)
  have 7: "clearChurchMarkers (clearChurchMarkers s) = clearChurchMarkers s"
    by (rule clearChurchMarkers_idempotent)
  have 8: "markers m = [] \<longrightarrow> clearChurchMarkers s = s"
  proof
    assume e: "markers m = []"
    with assms(2) have "churchMarkersRef s = []"
      by simp
    with e assms(1) show "clearChurchMarkers s = s"
      by (simp add: cleared)
  qed
  from 1 2 3 4 5 6 7 8 show ?thesis
    by (simp only: simp_thms)
qed

theorem showChurchesForArea_exact_witness:
  "map marker_church (displayed_markers
       (showChurchesForArea (map upper_unit) [fortkerk, soto_church] (js ''WILLEMSTAD'')
          willemstad_selected))
     = [fortkerk]
   \<and> map marker_church (displayed_markers
       (showChurchesForArea (map upper_unit) [fortkerk, soto_church] (js ''willemstad'')
          willemstad_selected))
     = [fortkerk]
   \<and> clearChurchMarkers willemstad_selected = willemstad_selected"
proof -
  have m: "mapInstanceRef willemstad_selected
      = Some \<lparr>view = InitialView, open_popup = None, markers = []\<rparr>"
    by (simp add: willemstad_selected_def)
  have t: "mset (markers \<lparr>view = InitialView, open_popup = None, markers = []\<rparr>)
      = mset (churchMarkersRef willemstad_selected)"
    by (simp add: willemstad_selected_def)
  have u: "map upper_unit (js ''Willemstad'') = js ''WILLEMSTAD''"
    "map upper_unit (js ''Bandabou'') = js ''BANDABOU''"
    "map upper_unit (js ''WILLEMSTAD'') = js ''WILLEMSTAD''"
    "map upper_unit (js ''willemstad'') = js ''WILLEMSTAD''"
    by (simp_all add: js_def upper_unit_def)
  have d: "js ''BANDABOU'' \<noteq> js ''WILLEMSTAD''"
    by (simp add: js_def)
  have f: "filter (\<lambda>church. map upper_unit (church_area church)
              = map upper_unit (js ''WILLEMSTAD'')) [fortkerk, soto_church] = [fortkerk]"
    "filter (\<lambda>church. map upper_unit (church_area church)
              = map upper_unit (js ''willemstad'')) [fortkerk, soto_church] = [fortkerk]"
    by (simp_all add: fortkerk_def soto_church_def u d)
  note w = showChurchesForArea_exact [OF m t, where up = "map upper_unit"
      and churchesData = "[fortkerk, soto_church]" and areaName = "js ''WILLEMSTAD''"]
  note l = showChurchesForArea_exact [OF m t, where up = "map upper_unit"
      and churchesData = "[fortkerk, soto_church]" and areaName = "js ''willemstad''"]
  from w have 1: "map marker_church (displayed_markers
       (showChurchesForArea (map upper_unit) [fortkerk, soto_church] (js ''WILLEMSTAD'')
          willemstad_selected))
     = [fortkerk]"
    unfolding f by blast
  from l have 2: "map marker_church (displayed_markers
       (showChurchesForArea (map upper_unit) [fortkerk, soto_church] (js ''willemstad'')
          willemstad_selected))
     = [fortkerk]"
    unfolding f by blast
  from w have 3: "clearChurchMarkers willemstad_selected = willemstad_selected"
    by simp
  from 1 2 3 show ?thesis
    by (simp only: simp_thms)
qed


end
